theory Spec2Isabelle
  imports Complex_Main "HOL-Library.Monad_Syntax"
begin

section \<open>JavaScript values\<close>

text \<open>
  Values that cross the tool boundary are JSON-like JavaScript values. A number is a
  rational (every finite double is one); a string is a list of characters, one per
  code unit, so \<open>length\<close> is the \<open>.length\<close> of the source. An object is an association
  list in property order; a property may hold \<open>undefined\<close>.
\<close>

datatype json =
    JUndefined
  | JNull
  | JBool bool
  | JNum rat
  | JStr string
  | JArr "json list"
  | JObj "(string \<times> json) list"

text \<open>A thrown value: an \<open>Error\<close> instance with its message, or anything else.\<close>

datatype thrown = ErrorObj string | ThrownValue json

text \<open>Property read \<open>obj.k\<close>: a missing property reads as \<open>undefined\<close>.\<close>

definition get_field :: "(string \<times> json) list \<Rightarrow> string \<Rightarrow> json" where
  "get_field fs k = (case map_of fs k of None \<Rightarrow> JUndefined | Some v \<Rightarrow> v)"

text \<open>An object carries a field when the property is there with a defined value.\<close>

definition carries :: "(string \<times> json) list \<Rightarrow> string \<Rightarrow> bool" where
  "carries fs k = (get_field fs k \<noteq> JUndefined)"

text \<open>\<open>a || b\<close> on an optional string: absent and empty are both falsy.\<close>

definition str_or :: "string option \<Rightarrow> string \<Rightarrow> string" where
  "str_or a b = (case a of None \<Rightarrow> b | Some s \<Rightarrow> if s = [] then b else s)"

definition truthy_str :: "string option \<Rightarrow> bool" where
  "truthy_str a = (case a of None \<Rightarrow> False | Some s \<Rightarrow> s \<noteq> [])"

text \<open>\<open>a ?? b\<close> on an optional string: only absent falls through.\<close>

definition str_nullish :: "string option \<Rightarrow> string \<Rightarrow> string" where
  "str_nullish a b = (case a of None \<Rightarrow> b | Some s \<Rightarrow> s)"

definition js_opt_string :: "string option \<Rightarrow> json" where
  "js_opt_string a = (case a of None \<Rightarrow> JUndefined | Some s \<Rightarrow> JStr s)"

fun join :: "string \<Rightarrow> string list \<Rightarrow> string" where
  "join sep [] = []"
| "join sep [x] = x"
| "join sep (x # y # ys) = x @ sep @ join sep (y # ys)"

definition newline :: string where
  "newline = [CHR 0x0A]"

definition dquote :: string where
  "dquote = [CHR 0x22]"

text \<open>\<open>error instanceof Error ? error.message : "Unknown Firecrawl error."\<close>\<close>

definition error_message :: "thrown \<Rightarrow> string" where
  "error_message e = (case e of ErrorObj m \<Rightarrow> m | ThrownValue _ \<Rightarrow> ''Unknown Firecrawl error.'')"

section \<open>The data-provider adapter\<close>

datatype category = Github | Research | Pdf

datatype source_type = SrcWeb | SrcNews | SrcImages

record scrape_metadata =
  sm_title :: "string option"

record FirecrawlScrapeResponse =
  sr_url :: "string option"
  sr_markdown :: "string option"
  sr_content :: "string option"
  sr_metadata :: "scrape_metadata option"

record item_metadata =
  im_title :: "string option"
  im_publishedTime :: "string option"

record FirecrawlSearchResultItem =
  item_url :: string
  item_title :: "string option"
  item_markdown :: "string option"
  item_description :: "string option"
  item_metadata :: "item_metadata option"
  item_category :: "string option"

text \<open>A search response groups its entries by source type; each group may be absent.\<close>

record search_response =
  web :: "FirecrawlSearchResultItem list option"
  news :: "json list option"
  images :: "json list option"

record searchOptions =
  so_limit :: int
  so_formats :: "string list"
  so_tbs :: "string option"
  so_location :: "string option"
  so_categories :: "category list option"
  so_sources :: "source_type list option"

text \<open>
  The client of the external provider. Each method either resolves with a response or
  rejects with a thrown value. \<open>firecrawl\<close> is \<open>None\<close> when no key is configured.
\<close>

record FirecrawlApp =
  scrape :: "string \<Rightarrow> string list \<Rightarrow> thrown + FirecrawlScrapeResponse"
  search :: "string \<Rightarrow> searchOptions \<Rightarrow> thrown + search_response"

datatype adapter_call =
    ScrapeCall string "string list"
  | SearchCall string searchOptions

text \<open>
  An asynchronous function of the source: the adapter calls it made, and either the
  value it rejects with or the value it resolves to.
\<close>

type_synonym 'a async = "adapter_call list \<times> (thrown + 'a)"

section \<open>scrapeWebsite\<close>

definition scrape_success :: "string \<Rightarrow> FirecrawlScrapeResponse \<Rightarrow> json" where
  "scrape_success url data =
     (let markdown = (case sr_markdown data of Some m \<Rightarrow> m
                      | None \<Rightarrow> str_nullish (sr_content data) []);
          title = (case sr_metadata data of None \<Rightarrow> []
                   | Some md \<Rightarrow> str_nullish (sm_title md) []);
          shown = (if title = [] then url else title)
      in JObj [(''url'', JStr url),
               (''title'', JStr shown),
               (''content'', JStr (''# '' @ shown @ newline @ newline @ markdown))])"

definition scrape_failure :: "string \<Rightarrow> thrown \<Rightarrow> json" where
  "scrape_failure url e =
     JObj [(''url'', JStr url),
           (''title'', JStr ''Firecrawl scrape failed''),
           (''content'', JStr (''Scrape error: '' @ error_message e))]"

definition scrapeWebsite_execute :: "FirecrawlApp option \<Rightarrow> string \<Rightarrow> json async" where
  "scrapeWebsite_execute firecrawl url =
     (case firecrawl of
        None \<Rightarrow>
          ([], Inr (JObj [(''url'', JStr url),
                          (''title'', JStr ''Firecrawl key missing''),
                          (''content'', JStr (''FIRECRAWL_API_KEY is not configured. Unable to scrape ''
                                               @ url @ ''.''))]))
      | Some fc \<Rightarrow>
          ([ScrapeCall url [''markdown'']],
           (case scrape fc url [''markdown''] of
              Inr data \<Rightarrow> Inr (scrape_success url data)
            | Inl e \<Rightarrow> Inr (scrape_failure url e))))"

section \<open>searchWeb\<close>

record search_args =
  query :: string
  limit :: int
  tbs :: "string option"
  location :: "string option"
  categories :: "category list option"
  sources :: "source_type list option"

record search_result =
  res_title :: string
  res_url :: string
  res_snippet :: string
  res_publishedTime :: "string option"
  res_category :: "string option"

definition category_name :: "category \<Rightarrow> string" where
  "category_name c = (case c of Github \<Rightarrow> ''github'' | Research \<Rightarrow> ''research'' | Pdf \<Rightarrow> ''pdf'')"

definition source_name :: "source_type \<Rightarrow> string" where
  "source_name s = (case s of SrcWeb \<Rightarrow> ''web'' | SrcNews \<Rightarrow> ''news'' | SrcImages \<Rightarrow> ''images'')"

definition js_categories :: "category list \<Rightarrow> json" where
  "js_categories cs = JArr (map (\<lambda>c. JStr (category_name c)) cs)"

definition js_sources :: "source_type list \<Rightarrow> json" where
  "js_sources ss = JArr (map (\<lambda>s. JStr (source_name s)) ss)"

text \<open>\<open>{ tbs, location, categories, sources }\<close>: the arguments as they came.\<close>

definition raw_parameters :: "search_args \<Rightarrow> json" where
  "raw_parameters a =
     JObj [(''tbs'', js_opt_string (tbs a)),
           (''location'', js_opt_string (location a)),
           (''categories'', (case categories a of None \<Rightarrow> JUndefined | Some cs \<Rightarrow> js_categories cs)),
           (''sources'', (case sources a of None \<Rightarrow> JUndefined | Some ss \<Rightarrow> js_sources ss))]"

text \<open>The options sent to the adapter: an optional filter is set only when truthy.\<close>

definition build_searchOptions :: "search_args \<Rightarrow> searchOptions" where
  "build_searchOptions a =
     \<lparr> so_limit = limit a,
       so_formats = [''markdown''],
       so_tbs = (if truthy_str (tbs a) then tbs a else None),
       so_location = (if truthy_str (location a) then location a else None),
       so_categories = (case categories a of None \<Rightarrow> None
                        | Some cs \<Rightarrow> if length cs > 0 then Some cs else None),
       so_sources = (case sources a of None \<Rightarrow> None
                     | Some ss \<Rightarrow> if length ss > 0 then Some ss else None) \<rparr>"

text \<open>\<open>item.markdown?.slice(0, 400) || item.description || ""\<close>\<close>

definition snippet_of :: "FirecrawlSearchResultItem \<Rightarrow> string" where
  "snippet_of item =
     str_or (map_option (take 400) (item_markdown item)) (str_or (item_description item) [])"

definition to_result :: "FirecrawlSearchResultItem \<Rightarrow> search_result" where
  "to_result item =
     \<lparr> res_title =
         str_or (case item_metadata item of None \<Rightarrow> None | Some md \<Rightarrow> im_title md)
           (str_or (item_title item) (str_or (Some (item_url item)) ''Untitled'')),
       res_url = item_url item,
       res_snippet = snippet_of item,
       res_publishedTime = (case item_metadata item of None \<Rightarrow> None | Some md \<Rightarrow> im_publishedTime md),
       res_category = item_category item \<rparr>"

text \<open>
  One line of the summary. The title of a result is always a string, so the
  \<open>??\<close> fallbacks of the source are never taken.
\<close>

definition summary_line :: "search_result \<Rightarrow> string" where
  "summary_line r =
     (let title = res_title r;
          url = (if res_url r \<noteq> [] then '' ('' @ res_url r @ '')'' else []);
          snippet = (if res_snippet r \<noteq> [] then newline @ ''> '' @ res_snippet r else []);
          category = (case res_category r of None \<Rightarrow> []
                      | Some c \<Rightarrow> if c \<noteq> [] then '' ['' @ c @ '']'' else []);
          published = (case res_publishedTime r of None \<Rightarrow> []
                       | Some p \<Rightarrow> if p \<noteq> [] then '' (Published: '' @ p @ '')'' else [])
      in ''- '' @ title @ category @ published @ url @ snippet)"

definition result_json :: "search_result \<Rightarrow> json" where
  "result_json r =
     JObj [(''title'', JStr (res_title r)),
           (''url'', JStr (res_url r)),
           (''snippet'', JStr (res_snippet r)),
           (''publishedTime'', js_opt_string (res_publishedTime r)),
           (''category'', js_opt_string (res_category r))]"

definition search_summary :: "string \<Rightarrow> search_result list \<Rightarrow> string" where
  "search_summary q results =
     (let summaryLines = map summary_line results
      in if length summaryLines \<noteq> 0
         then ''### Search results for '' @ dquote @ q @ dquote @ newline @ join newline summaryLines
         else ''### Search results for '' @ dquote @ q @ dquote @ newline @ ''- No results found.'')"

definition web_results :: "search_response \<Rightarrow> search_result list" where
  "web_results response =
     map to_result (case web response of None \<Rightarrow> [] | Some items \<Rightarrow> items)"

definition search_success :: "search_args \<Rightarrow> search_response \<Rightarrow> json" where
  "search_success a response =
     (let results = web_results response
      in JObj [(''query'', JStr (query a)),
               (''limit'', JNum (of_int (limit a))),
               (''parameters'',
                  JObj [(''tbs'', JStr (str_or (tbs a) ''none'')),
                        (''location'', JStr (str_or (location a) ''global'')),
                        (''categories'', js_categories (case categories a of None \<Rightarrow> [] | Some cs \<Rightarrow> cs)),
                        (''sources'', js_sources (case sources a of None \<Rightarrow> [SrcWeb] | Some ss \<Rightarrow> ss))]),
               (''count'', JNum (of_nat (length results))),
               (''results'', JArr (map result_json results)),
               (''content'', JStr (search_summary (query a) results)),
               (''message'', (if length results = 0
                              then JStr ''No results returned from Firecrawl search''
                              else JUndefined))])"

definition search_failure :: "search_args \<Rightarrow> thrown \<Rightarrow> json" where
  "search_failure a e =
     JObj [(''query'', JStr (query a)),
           (''limit'', JNum (of_int (limit a))),
           (''parameters'', raw_parameters a),
           (''results'', JArr []),
           (''error'', JStr (error_message e))]"

definition search_unconfigured :: "search_args \<Rightarrow> json" where
  "search_unconfigured a =
     JObj [(''query'', JStr (query a)),
           (''limit'', JNum (of_int (limit a))),
           (''parameters'', raw_parameters a),
           (''results'', JArr []),
           (''note'', JStr ''FIRECRAWL_API_KEY is not configured. Unable to perform search.'')]"

definition searchWeb_execute :: "FirecrawlApp option \<Rightarrow> search_args \<Rightarrow> json async" where
  "searchWeb_execute firecrawl a =
     (case firecrawl of
        None \<Rightarrow> ([], Inr (search_unconfigured a))
      | Some fc \<Rightarrow>
          ([SearchCall (query a) (build_searchOptions a)],
           (case search fc (query a) (build_searchOptions a) of
              Inr response \<Rightarrow> Inr (search_success a response)
            | Inl e \<Rightarrow> Inr (search_failure a e))))"

section \<open>Input schemas\<close>

text \<open>
  The schema combinators of the source, as parsers of a JavaScript value: \<open>None\<close> is a
  validation error, \<open>Some\<close> the parsed output.
\<close>

definition is_integer :: "rat \<Rightarrow> bool" where
  "is_integer r = (of_int \<lfloor>r\<rfloor> = r)"

definition z_string :: "json \<Rightarrow> string option" where
  "z_string v = (case v of JStr s \<Rightarrow> Some s | _ \<Rightarrow> None)"

definition z_string_min :: "nat \<Rightarrow> json \<Rightarrow> string option" where
  "z_string_min n v =
     (case v of JStr s \<Rightarrow> if n \<le> length s then Some s else None | _ \<Rightarrow> None)"

definition z_boolean :: "json \<Rightarrow> bool option" where
  "z_boolean v = (case v of JBool b \<Rightarrow> Some b | _ \<Rightarrow> None)"

definition z_enum :: "(string \<times> 'a) list \<Rightarrow> json \<Rightarrow> 'a option" where
  "z_enum tbl v = (case v of JStr s \<Rightarrow> map_of tbl s | _ \<Rightarrow> None)"

definition z_optional :: "(json \<Rightarrow> 'a option) \<Rightarrow> json \<Rightarrow> 'a option option" where
  "z_optional p v = (case v of JUndefined \<Rightarrow> Some None | _ \<Rightarrow> map_option Some (p v))"

definition z_nullable :: "(json \<Rightarrow> 'a option) \<Rightarrow> json \<Rightarrow> 'a option option" where
  "z_nullable p v = (case v of JNull \<Rightarrow> Some None | _ \<Rightarrow> map_option Some (p v))"

definition z_array :: "(json \<Rightarrow> 'a option) \<Rightarrow> json \<Rightarrow> 'a list option" where
  "z_array p v = (case v of JArr xs \<Rightarrow> those (map p xs) | _ \<Rightarrow> None)"

text \<open>\<open>z.record(z.any())\<close>: any object, its values unconstrained.\<close>

definition z_record_any :: "json \<Rightarrow> (string \<times> json) list option" where
  "z_record_any v = (case v of JObj fs \<Rightarrow> Some fs | _ \<Rightarrow> None)"

text \<open>\<open>z.number().int().min(1).max(10).default(5)\<close>\<close>

definition z_limit :: "json \<Rightarrow> int option" where
  "z_limit v =
     (case v of
        JUndefined \<Rightarrow> Some 5
      | JNum r \<Rightarrow> if is_integer r \<and> 1 \<le> r \<and> r \<le> 10 then Some \<lfloor>r\<rfloor> else None
      | _ \<Rightarrow> None)"

definition z_category :: "json \<Rightarrow> category option" where
  "z_category = z_enum [(''github'', Github), (''research'', Research), (''pdf'', Pdf)]"

definition z_source :: "json \<Rightarrow> source_type option" where
  "z_source = z_enum [(''web'', SrcWeb), (''news'', SrcNews), (''images'', SrcImages)]"

definition searchWeb_inputSchema :: "json \<Rightarrow> search_args option" where
  "searchWeb_inputSchema v =
     (case v of
        JObj fs \<Rightarrow>
          do {
            q \<leftarrow> z_string_min 3 (get_field fs ''query'');
            l \<leftarrow> z_limit (get_field fs ''limit'');
            t \<leftarrow> z_optional z_string (get_field fs ''tbs'');
            loc \<leftarrow> z_optional z_string (get_field fs ''location'');
            cs \<leftarrow> z_optional (z_array z_category) (get_field fs ''categories'');
            ss \<leftarrow> z_optional (z_array z_source) (get_field fs ''sources'');
            Some \<lparr> query = q, limit = l, tbs = t, location = loc, categories = cs, sources = ss \<rparr>
          }
      | _ \<Rightarrow> None)"

text \<open>
  \<open>z.string().url()\<close>: whether a string is an absolute URL is decided by the platform's
  URL parser, taken here as the parameter \<open>is_url\<close>.
\<close>

definition scrapeWebsite_inputSchema :: "(string \<Rightarrow> bool) \<Rightarrow> json \<Rightarrow> string option" where
  "scrapeWebsite_inputSchema is_url v =
     (case v of
        JObj fs \<Rightarrow>
          (case get_field fs ''url'' of
             JStr s \<Rightarrow> if is_url s then Some s else None
           | _ \<Rightarrow> None)
      | _ \<Rightarrow> None)"

section \<open>Calling a tool\<close>

datatype call_outcome = NoSuchTool | InvalidToolInput | ToolError thrown | ToolResult json

text \<open>
  Modelled from the spec: the dispatch of a tool call lives in the agent library, which
  is not part of the sources. As section 4.1 of the specification has it, the input is
  validated against the tool's input schema first and \<open>execute\<close> receives only
  schema-validated input; a rejected input never reaches \<open>execute\<close>.
\<close>

definition call_tool ::
  "(json \<Rightarrow> 'a option) \<Rightarrow> ('a \<Rightarrow> json async) \<Rightarrow> json \<Rightarrow> adapter_call list \<times> call_outcome" where
  "call_tool schema execute input =
     (case schema input of
        None \<Rightarrow> ([], InvalidToolInput)
      | Some a \<Rightarrow>
          (case execute a of
             (calls, Inr v) \<Rightarrow> (calls, ToolResult v)
           | (calls, Inl e) \<Rightarrow> (calls, ToolError e)))"

definition call_searchWeb :: "FirecrawlApp option \<Rightarrow> json \<Rightarrow> adapter_call list \<times> call_outcome" where
  "call_searchWeb firecrawl = call_tool searchWeb_inputSchema (searchWeb_execute firecrawl)"

definition call_scrapeWebsite ::
  "(string \<Rightarrow> bool) \<Rightarrow> FirecrawlApp option \<Rightarrow> json \<Rightarrow> adapter_call list \<times> call_outcome" where
  "call_scrapeWebsite is_url firecrawl =
     call_tool (scrapeWebsite_inputSchema is_url) (scrapeWebsite_execute firecrawl)"

text \<open>
  The bounds of section 4.1 of the specification, in its words: the query is a string of
  length at least 3, and the limit, when given, is an integer between 1 and 10.
\<close>

definition within_bounds :: "json \<Rightarrow> bool" where
  "within_bounds v =
     (\<exists>fs. v = JObj fs \<and>
        (\<exists>q. get_field fs ''query'' = JStr q \<and> 3 \<le> length q) \<and>
        (get_field fs ''limit'' = JUndefined \<or>
         (\<exists>i::int. get_field fs ''limit'' = JNum (of_int i) \<and> 1 \<le> i \<and> i \<le> 10)))"

section \<open>The structured-output contract\<close>

datatype task_status = Completed | Partial | Not_found | Insufficient_data

datatype confidence = High | Medium | Low

record finding_source =
  fs_title :: string
  fs_url :: string
  fs_publishedDate :: "string option"

record finding =
  f_name :: string
  f_type :: string
  f_launchDate :: "string option"
  f_details :: "(string \<times> json) list"
  f_confidence :: confidence
  f_sources :: "finding_source list"

record StructuredResult =
  taskCompleted :: bool
  taskStatus :: task_status
  message :: string
  findings :: "finding list"
  searchStrategies :: "string list"
  nextSteps :: "string option"

definition z_task_status :: "json \<Rightarrow> task_status option" where
  "z_task_status =
     z_enum [(''completed'', Completed), (''partial'', Partial),
             (''not_found'', Not_found), (''insufficient_data'', Insufficient_data)]"

definition z_confidence :: "json \<Rightarrow> confidence option" where
  "z_confidence = z_enum [(''high'', High), (''medium'', Medium), (''low'', Low)]"

definition z_finding_source :: "json \<Rightarrow> finding_source option" where
  "z_finding_source v =
     (case v of
        JObj fs \<Rightarrow>
          do {
            t \<leftarrow> z_string (get_field fs ''title'');
            u \<leftarrow> z_string (get_field fs ''url'');
            p \<leftarrow> z_nullable z_string (get_field fs ''publishedDate'');
            Some \<lparr> fs_title = t, fs_url = u, fs_publishedDate = p \<rparr>
          }
      | _ \<Rightarrow> None)"

definition z_finding :: "json \<Rightarrow> finding option" where
  "z_finding v =
     (case v of
        JObj fs \<Rightarrow>
          do {
            n \<leftarrow> z_string (get_field fs ''name'');
            t \<leftarrow> z_string (get_field fs ''type'');
            l \<leftarrow> z_nullable z_string (get_field fs ''launchDate'');
            d \<leftarrow> z_record_any (get_field fs ''details'');
            c \<leftarrow> z_confidence (get_field fs ''confidence'');
            ss \<leftarrow> z_array z_finding_source (get_field fs ''sources'');
            Some \<lparr> f_name = n, f_type = t, f_launchDate = l, f_details = d,
                   f_confidence = c, f_sources = ss \<rparr>
          }
      | _ \<Rightarrow> None)"

text \<open>
  The schema of the agent's final answer. Each field is checked on its own; the schema
  has no refinement that relates one field to another.
\<close>

definition scoutResponseSchema :: "json \<Rightarrow> StructuredResult option" where
  "scoutResponseSchema v =
     (case v of
        JObj fs \<Rightarrow>
          do {
            tc \<leftarrow> z_boolean (get_field fs ''taskCompleted'');
            ts \<leftarrow> z_task_status (get_field fs ''taskStatus'');
            m \<leftarrow> z_string (get_field fs ''message'');
            f \<leftarrow> z_array z_finding (get_field fs ''findings'');
            st \<leftarrow> z_array z_string (get_field fs ''searchStrategies'');
            n \<leftarrow> z_nullable z_string (get_field fs ''nextSteps'');
            Some \<lparr> taskCompleted = tc, taskStatus = ts, message = m, findings = f,
                   searchStrategies = st, nextSteps = n \<rparr>
          }
      | _ \<Rightarrow> None)"

text \<open>The invariant of section 3 of the specification, in its words.\<close>

definition result_invariant :: "StructuredResult \<Rightarrow> bool" where
  "result_invariant r =
     ((taskCompleted r = (1 \<le> length (findings r))) \<and>
      ((taskStatus r = Completed) = taskCompleted r) \<and>
      (taskStatus r \<noteq> Completed \<longrightarrow> findings r = []))"

text \<open>The JSON form of a typed result: what a candidate with these field values looks like.\<close>

definition task_status_name :: "task_status \<Rightarrow> string" where
  "task_status_name s =
     (case s of Completed \<Rightarrow> ''completed'' | Partial \<Rightarrow> ''partial''
      | Not_found \<Rightarrow> ''not_found'' | Insufficient_data \<Rightarrow> ''insufficient_data'')"

definition confidence_name :: "confidence \<Rightarrow> string" where
  "confidence_name c = (case c of High \<Rightarrow> ''high'' | Medium \<Rightarrow> ''medium'' | Low \<Rightarrow> ''low'')"

definition js_nullable_string :: "string option \<Rightarrow> json" where
  "js_nullable_string a = (case a of None \<Rightarrow> JNull | Some s \<Rightarrow> JStr s)"

definition finding_source_json :: "finding_source \<Rightarrow> json" where
  "finding_source_json s =
     JObj [(''title'', JStr (fs_title s)),
           (''url'', JStr (fs_url s)),
           (''publishedDate'', js_nullable_string (fs_publishedDate s))]"

definition finding_json :: "finding \<Rightarrow> json" where
  "finding_json f =
     JObj [(''name'', JStr (f_name f)),
           (''type'', JStr (f_type f)),
           (''launchDate'', js_nullable_string (f_launchDate f)),
           (''details'', JObj (f_details f)),
           (''confidence'', JStr (confidence_name (f_confidence f))),
           (''sources'', JArr (map finding_source_json (f_sources f)))]"

definition candidate_json :: "StructuredResult \<Rightarrow> json" where
  "candidate_json r =
     JObj [(''taskCompleted'', JBool (taskCompleted r)),
           (''taskStatus'', JStr (task_status_name (taskStatus r))),
           (''message'', JStr (message r)),
           (''findings'', JArr (map finding_json (findings r))),
           (''searchStrategies'', JArr (map JStr (searchStrategies r))),
           (''nextSteps'', js_nullable_string (nextSteps r))]"

section \<open>The agent\<close>

text \<open>\<open>stopWhen: stepCountIs(10)\<close>\<close>

definition max_steps :: nat where
  "max_steps = 10"

text \<open>A number in a template literal: its decimal digits.\<close>

definition digit_char :: "nat \<Rightarrow> char" where
  "digit_char d = ''0123456789'' ! d"

fun show_nat :: "nat \<Rightarrow> string" where
  "show_nat n =
     (if n < 10 then [digit_char n] else show_nat (n div 10) @ [digit_char (n mod 10)])"

text \<open>
  \<open>prepareStep\<close> of the source. The library hands it \<open>stepNumber\<close>, the number of steps
  already completed: the first step has \<open>stepNumber = 0\<close>, and the source itself prints
  \<open>stepNumber + 1\<close> as the step "of 10". The result is the \<open>system\<close> setting for that
  step, \<open>None\<close> for the empty object.
\<close>

definition prepareStep :: "nat \<Rightarrow> string option" where
  "prepareStep stepNumber =
     (if stepNumber = 9
      then Some (''You're approaching your step limit (step '' @ show_nat (stepNumber + 1)
                 @ '' of 10). Consider wrapping up your search and preparing your response.'')
      else None)"

datatype tool_call = ToolCall string json

datatype message =
    ClientMessage json
  | AssistantToolCalls "tool_call list"
  | ToolResults "call_outcome list"
  | AssistantText string

datatype output_contract = ScoutResponse

text \<open>What the model capability is invoked with at one step.\<close>

record model_request =
  rq_step :: nat
  rq_messages :: "message list"
  rq_tools :: "string list"
  rq_output :: output_contract
  rq_directive :: "string option"

datatype model_response =
    ToolCalls "tool_call list"
  | FinalObject json
  | PlainText string
  | ModelFailure

datatype agent_state =
    RUNNING nat
  | AWAITING_TOOL_RESULTS nat "tool_call list"
  | FINISHED StructuredResult
  | ABORTED string

record agent_config =
  state :: agent_state
  history :: "message list"
  invocations :: "model_request list"

text \<open>\<open>tools: { scrapeWebsite, searchWeb }\<close>: the catalog, and the dispatch by name.\<close>

definition tool_catalog :: "string list" where
  "tool_catalog = [''scrapeWebsite'', ''searchWeb'']"

definition dispatch :: "(string \<Rightarrow> bool) \<Rightarrow> FirecrawlApp option \<Rightarrow> tool_call \<Rightarrow> call_outcome" where
  "dispatch is_url firecrawl call =
     (case call of
        ToolCall name input \<Rightarrow>
          if name = ''scrapeWebsite'' then snd (call_scrapeWebsite is_url firecrawl input)
          else if name = ''searchWeb'' then snd (call_searchWeb firecrawl input)
          else NoSuchTool)"

text \<open>
  Modelled from the spec: the loop of the agent class lives in the agent library, which
  is not part of the sources; the sources configure it (the tools, the output schema,
  \<open>stepCountIs(10)\<close>, \<open>prepareStep\<close>). What follows is the state machine of section 4.2
  of the specification. Steps are numbered from 1, as there; step \<open>n\<close> is the one the
  library calls \<open>stepNumber = n - 1\<close>.
\<close>

text \<open>
  Modelled from the spec: the step after step \<open>n\<close> (rule 4 of section 4.2). Once the step
  number would exceed the ceiling, the loop is \<open>ABORTED("step_limit_exceeded")\<close>.
\<close>

definition next_step :: "nat \<Rightarrow> agent_state" where
  "next_step n = (if max_steps < Suc n then ABORTED ''step_limit_exceeded'' else RUNNING (Suc n))"

text \<open>
  Modelled from the spec: what the model capability is invoked with at \<open>RUNNING(n)\<close>
  (rule 1 of section 4.2): the full message history, the tool catalog, the output
  contract, and what \<open>prepareStep\<close> of the source returns for this step.
\<close>

definition request_at :: "nat \<Rightarrow> message list \<Rightarrow> model_request" where
  "request_at n h =
     \<lparr> rq_step = n, rq_messages = h, rq_tools = tool_catalog, rq_output = ScoutResponse,
       rq_directive = prepareStep (n - 1) \<rparr>"

text \<open>
  Modelled from the spec: one transition of the state machine of section 4.2. Rule 2:
  tool calls lead to \<open>AWAITING_TOOL_RESULTS\<close>; there every call is dispatched, the
  results are appended to the history, and the next step begins. Rule 3: a final object
  is validated against the output schema of the source; an accepted object is
  \<open>FINISHED\<close>, a rejected one is surfaced as \<open>ABORTED\<close>. Rule 5: a failure of the
  model is \<open>ABORTED("model_error")\<close>. Plain text does not reach rule 3: it is
  appended and the next step begins.
\<close>

definition agent_step ::
  "(model_request \<Rightarrow> model_response) \<Rightarrow> (tool_call \<Rightarrow> call_outcome) \<Rightarrow> agent_config \<Rightarrow> agent_config" where
  "agent_step model tools c =
     (case state c of
        RUNNING n \<Rightarrow>
          if max_steps < n then c\<lparr>state := ABORTED ''step_limit_exceeded''\<rparr>
          else
            (let rq = request_at n (history c);
                 c' = c\<lparr>invocations := invocations c @ [rq]\<rparr>
             in case model rq of
                  ToolCalls calls \<Rightarrow>
                    c'\<lparr>state := AWAITING_TOOL_RESULTS n calls,
                       history := history c @ [AssistantToolCalls calls]\<rparr>
                | FinalObject v \<Rightarrow>
                    (case scoutResponseSchema v of
                       Some r \<Rightarrow> c'\<lparr>state := FINISHED r\<rparr>
                     | None \<Rightarrow> c'\<lparr>state := ABORTED ''contract_violation''\<rparr>)
                | PlainText t \<Rightarrow>
                    c'\<lparr>state := next_step n, history := history c @ [AssistantText t]\<rparr>
                | ModelFailure \<Rightarrow> c'\<lparr>state := ABORTED ''model_error''\<rparr>)
      | AWAITING_TOOL_RESULTS n calls \<Rightarrow>
          c\<lparr>state := next_step n, history := history c @ [ToolResults (map tools calls)]\<rparr>
      | FINISHED r \<Rightarrow> c
      | ABORTED why \<Rightarrow> c)"

definition terminal :: "agent_state \<Rightarrow> bool" where
  "terminal s = (case s of FINISHED _ \<Rightarrow> True | ABORTED _ \<Rightarrow> True | _ \<Rightarrow> False)"

definition is_finished :: "agent_state \<Rightarrow> bool" where
  "is_finished s = (case s of FINISHED _ \<Rightarrow> True | _ \<Rightarrow> False)"

definition remaining :: "agent_state \<Rightarrow> nat" where
  "remaining s =
     (case s of
        RUNNING n \<Rightarrow> 2 * (Suc max_steps - n) + 1
      | AWAITING_TOOL_RESULTS n calls \<Rightarrow> 2 * (max_steps - n) + 2
      | _ \<Rightarrow> 0)"

text \<open>
  Modelled from the spec: the configurations the loop goes through, from the given one
  to a terminal one. The number of steps left bounds the run.
\<close>

function run ::
  "(model_request \<Rightarrow> model_response) \<Rightarrow> (tool_call \<Rightarrow> call_outcome) \<Rightarrow> agent_config \<Rightarrow> agent_config list" where
  "run model tools c =
     (if terminal (state c) then [c] else c # run model tools (agent_step model tools c))"
  by pat_completeness auto
termination
proof (relation "measure (\<lambda>(model, tools, c). remaining (state c))")
  fix model :: "model_request \<Rightarrow> model_response"
    and tools :: "tool_call \<Rightarrow> call_outcome"
    and c :: agent_config
  assume "\<not> terminal (state c)"
  then have "remaining (state (agent_step model tools c)) < remaining (state c)"
    by (cases "state c")
       (auto simp: agent_step_def terminal_def remaining_def next_step_def Let_def
             split: model_response.splits option.splits)
  then show "((model, tools, agent_step model tools c), (model, tools, c))
               \<in> measure (\<lambda>(model, tools, c). remaining (state c))"
    by simp
qed simp

declare run.simps [simp del]

declare show_nat.simps [simp del]

text \<open>Modelled from the spec: the initial state is \<open>RUNNING(1)\<close>.\<close>

definition initial_config :: "json list \<Rightarrow> agent_config" where
  "initial_config messages =
     \<lparr> state = RUNNING 1, history = map ClientMessage messages, invocations = [] \<rparr>"

definition chatAgent ::
  "(model_request \<Rightarrow> model_response) \<Rightarrow> (tool_call \<Rightarrow> call_outcome) \<Rightarrow> json list \<Rightarrow> agent_config list" where
  "chatAgent model tools messages = run model tools (initial_config messages)"

section \<open>The transport handler\<close>

text \<open>
  A stream is the sequence of chunks it delivers and how it ends: closed, or errored
  with a value.
\<close>

record stream =
  chunks :: "string list"
  failure :: "thrown option"

record agent_response =
  ar_headers :: "(string \<times> string) list"
  ar_body :: stream

datatype response_body = JsonBody json | StreamBody stream

record response =
  status :: nat
  headers :: "(string \<times> string) list"
  body :: response_body

text \<open>What a request causes besides its response.\<close>

datatype effect =
    ModelInvocation
  | ToolInvocation string
  | ConsoleLog "json list"
  | ConsoleError "json list"

text \<open>
  The parts of the platform the handler uses: \<open>JSON.parse\<close> (\<open>None\<close> when it throws),
  \<open>JSON.stringify\<close> (a string, or \<open>undefined\<close> for a value that has no JSON form), and
  the console, a call of which may throw.
\<close>

record platform =
  json_parse :: "string \<Rightarrow> json option"
  stringify :: "json \<Rightarrow> json"
  console :: "json list \<Rightarrow> thrown option"

text \<open>
  Modelled from the spec: \<open>tee()\<close> is a primitive of the platform's streams, not part of
  the sources. As section 4.3 of the specification has it, it gives two independent
  streams that each see every element of the source exactly once.
\<close>

definition tee :: "stream \<Rightarrow> stream \<times> stream" where
  "tee s = (s, s)"

text \<open>
  A run of \<open>console.log\<close> calls inside a \<open>try\<close> whose \<open>catch\<close> ignores the error: the
  calls up to the first one that throws take place.
\<close>

fun console_calls :: "(json list \<Rightarrow> thrown option) \<Rightarrow> json list list \<Rightarrow> effect list" where
  "console_calls con [] = []"
| "console_calls con (args # rest) =
     (case con args of None \<Rightarrow> ConsoleLog args # console_calls con rest | Some e \<Rightarrow> [])"

text \<open>The same run outside any \<open>try\<close>: the first call that throws ends it with that value.\<close>

fun console_seq ::
  "(json list \<Rightarrow> thrown option) \<Rightarrow> json list list \<Rightarrow> effect list \<times> thrown option" where
  "console_seq con [] = ([], None)"
| "console_seq con (args # rest) =
     (case con args of
        None \<Rightarrow> (case console_seq con rest of (es, r) \<Rightarrow> (ConsoleLog args # es, r))
      | Some e \<Rightarrow> ([], Some e))"

definition wrench :: string where
  "wrench = [CHR 0xF0, CHR 0x9F, CHR 0x94, CHR 0xA7]"

definition check_mark :: string where
  "check_mark = [CHR 0xE2, CHR 0x9C, CHR 0x85]"

fun starts_with :: "string \<Rightarrow> string \<Rightarrow> bool" where
  "starts_with [] s = True"
| "starts_with (p # ps) [] = False"
| "starts_with (p # ps) (c # cs) = (p = c \<and> starts_with ps cs)"

text \<open>\<open>chunk.split('\n')\<close>\<close>

fun split_lines :: "string \<Rightarrow> string list" where
  "split_lines [] = [[]]"
| "split_lines (c # cs) =
     (if c = CHR 0x0A then [] # split_lines cs
      else (case split_lines cs of l # ls \<Rightarrow> (c # l) # ls | [] \<Rightarrow> [[c]]))"

definition is_space :: "char \<Rightarrow> bool" where
  "is_space c = (c \<in> set [CHR 0x20, CHR 0x09, CHR 0x0A, CHR 0x0B, CHR 0x0C, CHR 0x0D])"

text \<open>\<open>line.trim()\<close> is truthy: the line has a character that is not white space.\<close>

definition nonblank :: "string \<Rightarrow> bool" where
  "nonblank line = (\<not> list_all is_space line)"

text \<open>
  The body of the inner \<open>try\<close> for one line. Reading \<open>.type\<close> of \<open>null\<close> throws, as a
  failed parse does; the \<open>catch\<close> ignores both. A value that is not an object has no
  \<open>type\<close>, and nothing is logged.
\<close>

definition log_line :: "platform \<Rightarrow> string \<Rightarrow> effect list" where
  "log_line pf line =
     (if starts_with ''0:'' line
      then (case json_parse pf (drop 2 line) of
              None \<Rightarrow> []
            | Some data \<Rightarrow>
                (case data of
                   JObj fs \<Rightarrow>
                     if get_field fs ''type'' = JStr ''tool-call''
                     then console_calls (console pf)
                            [[JStr (newline @ wrench @ '' Tool Call:'')],
                             [JStr ''  Tool:'', get_field fs ''toolName''],
                             [JStr ''  Args:'', stringify pf (get_field fs ''args'')]]
                     else if get_field fs ''type'' = JStr ''tool-result''
                     then console_calls (console pf)
                            [[JStr (newline @ check_mark @ '' Tool Result:'')],
                             [JStr ''  Tool:'', get_field fs ''toolName''],
                             [JStr ''  Result:'', stringify pf (get_field fs ''result'')]]
                     else if get_field fs ''type'' = JStr ''finish''
                     then console_calls (console pf)
                            [[JStr (newline @ ''=== Agent Finished ==='')],
                             [JStr ''Reason:'', get_field fs ''finishReason''],
                             [JStr (''======================'' @ newline)]]
                     else []
                 | _ \<Rightarrow> []))
      else [])"

definition thrown_json :: "thrown \<Rightarrow> json" where
  "thrown_json e = (case e of ErrorObj m \<Rightarrow> JObj [(''message'', JStr m)] | ThrownValue v \<Rightarrow> v)"

text \<open>
  The background task that reads the logging branch: every chunk is split into lines,
  the non-blank lines are logged, and a stream that errors ends the task in the outer
  \<open>catch\<close>.
\<close>

definition log_stream :: "platform \<Rightarrow> stream \<Rightarrow> effect list" where
  "log_stream pf logStream =
     concat (map (\<lambda>chunk. concat (map (log_line pf) (filter nonblank (split_lines chunk))))
               (chunks logStream))
     @ (case failure logStream of
          None \<Rightarrow> []
        | Some err \<Rightarrow>
            (case console pf [JStr ''Logging error:'', thrown_json err] of
               None \<Rightarrow> [ConsoleError [JStr ''Logging error:'', thrown_json err]]
             | Some e \<Rightarrow> []))"

text \<open>
  The end of \<open>POST\<close>: the body of the agent's response is split, the logging branch goes
  to the background task, the client branch is returned with the agent's headers.
\<close>

definition stream_response :: "platform \<Rightarrow> agent_response \<Rightarrow> effect list \<times> response" where
  "stream_response pf resp =
     (case tee (ar_body resp) of
        (logStream, clientStream) \<Rightarrow>
          (log_stream pf logStream,
           \<lparr> status = 200, headers = ar_headers resp, body = StreamBody clientStream \<rparr>))"

definition json_error :: "string \<Rightarrow> response" where
  "json_error msg =
     \<lparr> status = 400, headers = [(''content-type'', ''application/json'')],
       body = JsonBody (JObj [(''error'', JStr msg)]) \<rparr>"

text \<open>\<open>body.messages ?? []\<close>; reading a property of \<open>null\<close> throws.\<close>

definition body_messages :: "json \<Rightarrow> thrown + json" where
  "body_messages b =
     (case b of
        JNull \<Rightarrow> Inl (ErrorObj (''Cannot read properties of null (reading '' @ [CHR 0x27] @ ''messages'' @ [CHR 0x27] @ '')''))
      | JUndefined \<Rightarrow> Inl (ErrorObj (''Cannot read properties of undefined (reading '' @ [CHR 0x27] @ ''messages'' @ [CHR 0x27] @ '')''))
      | JObj fs \<Rightarrow>
          (case get_field fs ''messages'' of
             JUndefined \<Rightarrow> Inr (JArr [])
           | JNull \<Rightarrow> Inr (JArr [])
           | v \<Rightarrow> Inr v)
      | _ \<Rightarrow> Inr (JArr []))"

definition is_user :: "json \<Rightarrow> bool" where
  "is_user m = (case m of JObj fs \<Rightarrow> get_field fs ''role'' = JStr ''user'' | _ \<Rightarrow> False)"

definition start_lines :: "platform \<Rightarrow> json list \<Rightarrow> json list list" where
  "start_lines pf validatedMessages =
     [[JStr (newline @ ''=== Starting Agent Execution ==='')],
      [JStr ''Message count:'', JNum (of_nat (length validatedMessages))]]
     @ (case rev (filter is_user validatedMessages) of
          [] \<Rightarrow> []
        | lastUserMessage # _ \<Rightarrow> [[JStr ''Last user message:'', stringify pf lastUserMessage]])
     @ [[JStr (''================================'' @ newline)]]"

record environment =
  OPENAI_API_KEY :: "string option"

text \<open>
  \<open>POST\<close>. The request is given by what \<open>req.json()\<close> yields; \<open>validate\<close> stands for
  the library's validation of the messages and \<open>respond\<close> for the agent's \<open>respond\<close>,
  which gives the effects of the agent's run (model and tool invocations) and its
  streamed response. The result is the effects, and the response or the value the
  handler rejects with.
\<close>

definition POST ::
  "platform \<Rightarrow> environment \<Rightarrow> (json \<Rightarrow> thrown + json list) \<Rightarrow>
   (json list \<Rightarrow> effect list \<times> agent_response) \<Rightarrow> (thrown + json) \<Rightarrow>
   effect list \<times> (thrown + response)" where
  "POST pf env validate respond req_json =
     (if \<not> truthy_str (OPENAI_API_KEY env)
      then ([], Inr (json_error ''Set OPENAI_API_KEY to enable the chat.''))
      else
        (case req_json of
           Inl e \<Rightarrow> ([], Inr (json_error ''Invalid JSON payload.''))
         | Inr b \<Rightarrow>
             (case body_messages b of
                Inl e \<Rightarrow> ([], Inl e)
              | Inr messages \<Rightarrow>
                  (case validate messages of
                     Inl e \<Rightarrow> ([], Inl e)
                   | Inr validatedMessages \<Rightarrow>
                       (case console_seq (console pf) (start_lines pf validatedMessages) of
                          (logged, Some e) \<Rightarrow> (logged, Inl e)
                        | (logged, None) \<Rightarrow>
                            (case respond validatedMessages of
                               (agent_effects, resp) \<Rightarrow>
                                 (case stream_response pf resp of
                                    (background, r) \<Rightarrow>
                                      (logged @ agent_effects @ background, Inr r))))))))"

text \<open>
  The effects of a run of the agent loop: one model invocation for each request made,
  one tool invocation for each tool call dispatched.
\<close>

definition message_effects :: "message \<Rightarrow> effect list" where
  "message_effects m =
     (case m of
        AssistantToolCalls calls \<Rightarrow> map (\<lambda>call. case call of ToolCall name _ \<Rightarrow> ToolInvocation name) calls
      | _ \<Rightarrow> [])"

definition run_effects :: "agent_config \<Rightarrow> effect list" where
  "run_effects c =
     map (\<lambda>_. ModelInvocation) (invocations c) @ concat (map message_effects (history c))"

text \<open>
  What it is for a candidate to be well typed, field by field: \<open>taskCompleted\<close> is a
  boolean, \<open>taskStatus\<close> one of the four status names, \<open>message\<close> a string, \<open>findings\<close>
  an array of well-shaped findings, \<open>searchStrategies\<close> an array of strings and
  \<open>nextSteps\<close> a string or \<open>null\<close>. Nothing here relates one field to another.
\<close>

definition is_boolean :: "json \<Rightarrow> bool" where
  "is_boolean v = (case v of JBool _ \<Rightarrow> True | _ \<Rightarrow> False)"

definition is_string :: "json \<Rightarrow> bool" where
  "is_string v = (case v of JStr _ \<Rightarrow> True | _ \<Rightarrow> False)"

definition is_string_or_null :: "json \<Rightarrow> bool" where
  "is_string_or_null v = (case v of JNull \<Rightarrow> True | JStr _ \<Rightarrow> True | _ \<Rightarrow> False)"

definition is_one_of :: "string list \<Rightarrow> json \<Rightarrow> bool" where
  "is_one_of names v = (case v of JStr s \<Rightarrow> s \<in> set names | _ \<Rightarrow> False)"

definition is_object :: "json \<Rightarrow> bool" where
  "is_object v = (case v of JObj _ \<Rightarrow> True | _ \<Rightarrow> False)"

definition is_array_of :: "(json \<Rightarrow> bool) \<Rightarrow> json \<Rightarrow> bool" where
  "is_array_of p v = (case v of JArr xs \<Rightarrow> list_all p xs | _ \<Rightarrow> False)"

definition well_shaped_source :: "json \<Rightarrow> bool" where
  "well_shaped_source v =
     (case v of
        JObj fs \<Rightarrow>
          is_string (get_field fs ''title'') \<and>
          is_string (get_field fs ''url'') \<and>
          is_string_or_null (get_field fs ''publishedDate'')
      | _ \<Rightarrow> False)"

definition well_shaped_finding :: "json \<Rightarrow> bool" where
  "well_shaped_finding v =
     (case v of
        JObj fs \<Rightarrow>
          is_string (get_field fs ''name'') \<and>
          is_string (get_field fs ''type'') \<and>
          is_string_or_null (get_field fs ''launchDate'') \<and>
          is_object (get_field fs ''details'') \<and>
          is_one_of [''high'', ''medium'', ''low''] (get_field fs ''confidence'') \<and>
          is_array_of well_shaped_source (get_field fs ''sources'')
      | _ \<Rightarrow> False)"

definition well_typed_candidate :: "json \<Rightarrow> bool" where
  "well_typed_candidate v =
     (case v of
        JObj fs \<Rightarrow>
          is_boolean (get_field fs ''taskCompleted'') \<and>
          is_one_of [''completed'', ''partial'', ''not_found'', ''insufficient_data'']
            (get_field fs ''taskStatus'') \<and>
          is_string (get_field fs ''message'') \<and>
          is_array_of well_shaped_finding (get_field fs ''findings'') \<and>
          is_array_of is_string (get_field fs ''searchStrategies'') \<and>
          is_string_or_null (get_field fs ''nextSteps'')
      | _ \<Rightarrow> False)"

text \<open>A model capability that requests tool calls at every step.\<close>

definition always_requests_tools :: "(model_request \<Rightarrow> model_response) \<Rightarrow> bool" where
  "always_requests_tools model = (\<forall>rq. \<exists>calls. calls \<noteq> [] \<and> model rq = ToolCalls calls)"

text \<open>The lengths of the snippets in a search result, as the caller of the tool sees them.\<close>

definition snippet_lengths :: "json \<Rightarrow> nat list" where
  "snippet_lengths v =
     (case v of
        JObj fs \<Rightarrow>
          (case get_field fs ''results'' of
             JArr rs \<Rightarrow>
               map (\<lambda>r. case r of
                          JObj e \<Rightarrow> (case get_field e ''snippet'' of JStr s \<Rightarrow> length s | _ \<Rightarrow> 0)
                        | _ \<Rightarrow> 0) rs
           | _ \<Rightarrow> [])
      | _ \<Rightarrow> [])"

section \<open>Concrete inputs\<close>

definition failing_adapter :: FirecrawlApp where
  "failing_adapter =
     \<lparr> scrape = (\<lambda>url formats. Inl (ErrorObj ''socket hang up'')),
       search = (\<lambda>q opts. Inl (ThrownValue (JStr ''timeout''))) \<rparr>"

definition valid_search_args :: search_args where
  "valid_search_args =
     \<lparr> query = ''valid query'', limit = 5, tbs = None, location = None,
       categories = None, sources = None \<rparr>"

definition valid_search_input :: json where
  "valid_search_input = JObj [(''query'', JStr ''valid query''), (''limit'', JNum 5)]"

definition short_query_input :: json where
  "short_query_input = JObj [(''query'', JStr ''ab'')]"

definition long_description_item :: FirecrawlSearchResultItem where
  "long_description_item =
     \<lparr> item_url = ''https://example.com/a'', item_title = Some ''A'', item_markdown = None,
       item_description = Some (replicate 401 CHR ''x''), item_metadata = None,
       item_category = None \<rparr>"

definition long_description_adapter :: FirecrawlApp where
  "long_description_adapter =
     \<lparr> scrape = (\<lambda>url formats. Inl (ErrorObj ''unused'')),
       search = (\<lambda>q opts. Inr \<lparr> web = Some [long_description_item], news = None, images = None \<rparr>) \<rparr>"

definition news_search_args :: search_args where
  "news_search_args =
     \<lparr> query = ''firecrawl launch'', limit = 5, tbs = None, location = None,
       categories = None, sources = Some [SrcNews] \<rparr>"

definition news_only_adapter :: FirecrawlApp where
  "news_only_adapter =
     \<lparr> scrape = (\<lambda>url formats. Inl (ErrorObj ''unused'')),
       search = (\<lambda>q opts. Inr \<lparr> web = None,
                                 news = Some [JObj [(''title'', JStr ''Launch day''),
                                                    (''url'', JStr ''https://news.example.com/1'')]],
                                 images = None \<rparr>) \<rparr>"

definition inconsistent_candidate :: json where
  "inconsistent_candidate =
     JObj [(''taskCompleted'', JBool True),
           (''taskStatus'', JStr ''completed''),
           (''message'', JStr ''Done.''),
           (''findings'', JArr []),
           (''searchStrategies'', JArr [JStr ''searchWeb: query=x'']),
           (''nextSteps'', JNull)]"

definition inconsistent_result :: StructuredResult where
  "inconsistent_result =
     \<lparr> taskCompleted = True, taskStatus = Completed, message = ''Done.'', findings = [],
       searchStrategies = [''searchWeb: query=x''], nextSteps = None \<rparr>"

definition partial_candidate :: json where
  "partial_candidate =
     JObj [(''nextSteps'', JStr ''Try the press page.''),
           (''taskCompleted'', JBool False),
           (''taskStatus'', JStr ''partial''),
           (''message'', JStr ''Found one mention.''),
           (''requestId'', JNum 7),
           (''findings'',
              JArr [JObj [(''name'', JStr ''Cafe Uno''),
                          (''type'', JStr ''restaurant''),
                          (''launchDate'', JNull),
                          (''details'', JObj [(''city'', JStr ''Porto'')]),
                          (''confidence'', JStr ''low''),
                          (''sources'',
                             JArr [JObj [(''title'', JStr ''Blog''),
                                         (''url'', JStr ''https://blog.example.com''),
                                         (''publishedDate'', JNull)]])]]),
           (''searchStrategies'', JArr [])]"

definition partial_result :: StructuredResult where
  "partial_result =
     \<lparr> taskCompleted = False, taskStatus = Partial, message = ''Found one mention.'',
       findings =
         [\<lparr> f_name = ''Cafe Uno'', f_type = ''restaurant'', f_launchDate = None,
            f_details = [(''city'', JStr ''Porto'')], f_confidence = Low,
            f_sources = [\<lparr> fs_title = ''Blog'', fs_url = ''https://blog.example.com'',
                            fs_publishedDate = None \<rparr>] \<rparr>],
       searchStrategies = [], nextSteps = Some ''Try the press page.'' \<rparr>"

definition ill_typed_candidate :: json where
  "ill_typed_candidate =
     JObj [(''taskCompleted'', JStr ''yes''),
           (''taskStatus'', JStr ''completed''),
           (''message'', JStr ''Done.''),
           (''findings'', JArr []),
           (''searchStrategies'', JArr []),
           (''nextSteps'', JNull)]"

definition always_search :: "model_request \<Rightarrow> model_response" where
  "always_search rq = ToolCalls [ToolCall ''searchWeb'' (JObj [(''query'', JStr ''firecrawl'')])]"

definition answer_at_once :: "model_request \<Rightarrow> model_response" where
  "answer_at_once rq = FinalObject inconsistent_candidate"

definition any_url :: "string \<Rightarrow> bool" where
  "any_url s = True"

definition config_at :: "nat \<Rightarrow> agent_config" where
  "config_at n = \<lparr> state = RUNNING n, history = [], invocations = [] \<rparr>"

definition failing_platform :: platform where
  "failing_platform =
     \<lparr> json_parse = (\<lambda>s. None),
       stringify = (\<lambda>v. JUndefined),
       console = (\<lambda>args. Some (ErrorObj ''EPIPE'')) \<rparr>"

definition working_platform :: platform where
  "working_platform =
     \<lparr> json_parse = (\<lambda>s. Some (JObj [(''type'', JStr ''finish''), (''finishReason'', JStr ''stop'')])),
       stringify = (\<lambda>v. JStr ''{}''),
       console = (\<lambda>args. None) \<rparr>"

definition three_events :: agent_response where
  "three_events =
     \<lparr> ar_headers = [(''content-type'', ''text/event-stream'')],
       ar_body = \<lparr> chunks = [''0:{}'' @ newline, ''0:{}'' @ newline, ''0:{}'' @ newline],
                   failure = None \<rparr> \<rparr>"

definition no_key :: environment where
  "no_key = \<lparr> OPENAI_API_KEY = None \<rparr>"

definition with_key :: environment where
  "with_key = \<lparr> OPENAI_API_KEY = Some ''sk-test'' \<rparr>"

definition hello_request :: "thrown + json" where
  "hello_request =
     Inr (JObj [(''messages'', JArr [JObj [(''role'', JStr ''user''), (''content'', JStr ''hi'')]])])"

definition accept_messages :: "json \<Rightarrow> thrown + json list" where
  "accept_messages v =
     (case v of JArr ms \<Rightarrow> Inr ms | _ \<Rightarrow> Inl (ErrorObj ''messages must be an array''))"

text \<open>An agent whose \<open>respond\<close> runs the loop and answers with a given stream.\<close>

definition respond_with ::
  "(model_request \<Rightarrow> model_response) \<Rightarrow> (tool_call \<Rightarrow> call_outcome) \<Rightarrow> agent_response
     \<Rightarrow> json list \<Rightarrow> effect list \<times> agent_response" where
  "respond_with model tools resp messages =
     (run_effects (last (chatAgent model tools messages)), resp)"

section \<open>The tools\<close>

subsection \<open>Failures stay inside the tools\<close>

text \<open>
  C4. For every input and every behaviour of the adapter, a thrown value included, the
  \<open>execute\<close> function of each tool resolves to a result object and never rejects. What
  the object carries differs between the two tools. \<open>searchWeb\<close> answers an adapter
  failure with an \<open>error\<close> field holding the message and an absent adapter with a \<open>note\<close>
  field, both with empty \<open>results\<close>. \<open>scrapeWebsite\<close> always answers with exactly the
  fields \<open>url\<close>, \<open>title\<close> and \<open>content\<close>; an adapter failure is reported in the title
  "Firecrawl scrape failed" and in the content "Scrape error: " followed by the message.
\<close>

theorem tools_never_throw:
  "(\<exists>fs. snd (scrapeWebsite_execute firecrawl url) = Inr (JObj fs)
          \<and> map fst fs = [''url'', ''title'', ''content'']
          \<and> (\<forall>fc e. firecrawl = Some fc \<and> scrape fc url [''markdown''] = Inl e \<longrightarrow>
                get_field fs ''title'' = JStr ''Firecrawl scrape failed'' \<and>
                get_field fs ''content'' = JStr (''Scrape error: '' @ error_message e)))
   \<and> (\<exists>fs. snd (searchWeb_execute firecrawl a) = Inr (JObj fs)
          \<and> (firecrawl = None \<longrightarrow>
                get_field fs ''note'' = JStr ''FIRECRAWL_API_KEY is not configured. Unable to perform search.''
                \<and> get_field fs ''results'' = JArr [])
          \<and> (\<forall>fc e. firecrawl = Some fc \<and> search fc (query a) (build_searchOptions a) = Inl e \<longrightarrow>
                get_field fs ''error'' = JStr (error_message e) \<and> get_field fs ''results'' = JArr []))"
proof (intro conjI)
  show "\<exists>fs. snd (scrapeWebsite_execute firecrawl url) = Inr (JObj fs)
          \<and> map fst fs = [''url'', ''title'', ''content'']
          \<and> (\<forall>fc e. firecrawl = Some fc \<and> scrape fc url [''markdown''] = Inl e \<longrightarrow>
                get_field fs ''title'' = JStr ''Firecrawl scrape failed'' \<and>
                get_field fs ''content'' = JStr (''Scrape error: '' @ error_message e))"
  proof (cases firecrawl)
    case None
    then show ?thesis by (simp add: scrapeWebsite_execute_def)
  next
    case (Some fc)
    then show ?thesis
      by (cases "scrape fc url [''markdown'']")
         (simp_all add: scrapeWebsite_execute_def scrape_failure_def scrape_success_def
            Let_def get_field_def)
  qed
next
  show "\<exists>fs. snd (searchWeb_execute firecrawl a) = Inr (JObj fs)
          \<and> (firecrawl = None \<longrightarrow>
                get_field fs ''note'' = JStr ''FIRECRAWL_API_KEY is not configured. Unable to perform search.''
                \<and> get_field fs ''results'' = JArr [])
          \<and> (\<forall>fc e. firecrawl = Some fc \<and> search fc (query a) (build_searchOptions a) = Inl e \<longrightarrow>
                get_field fs ''error'' = JStr (error_message e) \<and> get_field fs ''results'' = JArr [])"
  proof (cases firecrawl)
    case None
    then show ?thesis
      by (simp add: searchWeb_execute_def search_unconfigured_def get_field_def)
  next
    case (Some fc)
    then show ?thesis
      by (cases "search fc (query a) (build_searchOptions a)")
         (simp_all add: searchWeb_execute_def search_failure_def search_success_def
            Let_def get_field_def)
  qed
qed

text \<open>
  The theorem at an adapter whose \<open>scrape\<close> throws an \<open>Error\<close> and whose \<open>search\<close> throws
  a string, and at no adapter.
\<close>

theorem tools_never_throw_witness:
  "scrape failing_adapter ''https://example.com'' [''markdown''] = Inl (ErrorObj ''socket hang up'')
   \<and> search failing_adapter (query valid_search_args) (build_searchOptions valid_search_args)
        = Inl (ThrownValue (JStr ''timeout''))
   \<and> (\<exists>fs. snd (scrapeWebsite_execute (Some failing_adapter) ''https://example.com'') = Inr (JObj fs)
          \<and> get_field fs ''content'' = JStr ''Scrape error: socket hang up'')
   \<and> (\<exists>fs. snd (searchWeb_execute (Some failing_adapter) valid_search_args) = Inr (JObj fs)
          \<and> get_field fs ''error'' = JStr ''Unknown Firecrawl error.'')
   \<and> (\<exists>fs. snd (searchWeb_execute None valid_search_args) = Inr (JObj fs)
          \<and> get_field fs ''note'' = JStr ''FIRECRAWL_API_KEY is not configured. Unable to perform search.'')"
proof -
  have s: "scrape failing_adapter ''https://example.com'' [''markdown''] = Inl (ErrorObj ''socket hang up'')"
    by (simp add: failing_adapter_def)
  have w: "search failing_adapter (query valid_search_args) (build_searchOptions valid_search_args)
        = Inl (ThrownValue (JStr ''timeout''))"
    by (simp add: failing_adapter_def)
  from tools_never_throw [of "Some failing_adapter" "''https://example.com''" valid_search_args] s w
  have a: "\<exists>fs. snd (scrapeWebsite_execute (Some failing_adapter) ''https://example.com'') = Inr (JObj fs)
          \<and> get_field fs ''content'' = JStr ''Scrape error: socket hang up''"
    and b: "\<exists>fs. snd (searchWeb_execute (Some failing_adapter) valid_search_args) = Inr (JObj fs)
          \<and> get_field fs ''error'' = JStr ''Unknown Firecrawl error.''"
    by (auto simp: error_message_def)
  from tools_never_throw [of None "''https://example.com''" valid_search_args]
  have c: "\<exists>fs. snd (searchWeb_execute None valid_search_args) = Inr (JObj fs)
          \<and> get_field fs ''note'' = JStr ''FIRECRAWL_API_KEY is not configured. Unable to perform search.''"
    by auto
  show ?thesis using s w a b c by blast
qed

text \<open>
  C4 as stated fails for \<open>scrapeWebsite\<close>: when the adapter throws, the result object
  carries neither an \<open>error\<close> nor a \<open>note\<close> field.
\<close>

theorem scrape_failure_has_no_error_field:
  "scrapeWebsite_execute (Some failing_adapter) ''https://example.com''
     = ([ScrapeCall ''https://example.com'' [''markdown'']],
        Inr (JObj [(''url'', JStr ''https://example.com''),
                   (''title'', JStr ''Firecrawl scrape failed''),
                   (''content'', JStr ''Scrape error: socket hang up'')]))
   \<and> \<not> carries [(''url'', JStr ''https://example.com''),
                 (''title'', JStr ''Firecrawl scrape failed''),
                 (''content'', JStr ''Scrape error: socket hang up'')] ''error''
   \<and> \<not> carries [(''url'', JStr ''https://example.com''),
                 (''title'', JStr ''Firecrawl scrape failed''),
                 (''content'', JStr ''Scrape error: socket hang up'')] ''note''"
  by (simp add: scrapeWebsite_execute_def failing_adapter_def scrape_failure_def
        error_message_def carries_def get_field_def)

subsection \<open>Input validation of searchWeb\<close>

lemma z_string_min_Some: "z_string_min n v = Some q \<Longrightarrow> v = JStr q \<and> n \<le> length q"
  by (auto simp: z_string_min_def split: json.splits if_splits)

lemma z_limit_Some:
  "z_limit v = Some l \<Longrightarrow> 1 \<le> l \<and> l \<le> 10 \<and> (v = JUndefined \<and> l = 5 \<or> v = JNum (of_int l))"
  by (auto simp: z_limit_def is_integer_def split: json.splits if_splits) (linarith+)?

lemma schema_Some:
  assumes "searchWeb_inputSchema v = Some a"
  shows "\<exists>fs. v = JObj fs \<and> z_string_min 3 (get_field fs ''query'') = Some (query a)
     \<and> z_limit (get_field fs ''limit'') = Some (limit a)"
  using assms
  by (auto simp: searchWeb_inputSchema_def split: json.splits Option.bind_splits)

lemma schema_within_bounds:
  assumes "searchWeb_inputSchema v = Some a"
  shows "within_bounds v \<and> 3 \<le> length (query a) \<and> 1 \<le> limit a \<and> limit a \<le> 10"
proof -
  from schema_Some [OF assms] obtain fs where v: "v = JObj fs"
    and q: "z_string_min 3 (get_field fs ''query'') = Some (query a)"
    and l: "z_limit (get_field fs ''limit'') = Some (limit a)"
    by blast
  from z_string_min_Some [OF q] z_limit_Some [OF l] v show ?thesis
    unfolding within_bounds_def by auto
qed

lemma schema_None:
  assumes "\<not> within_bounds v"
  shows "searchWeb_inputSchema v = None"
proof (cases "searchWeb_inputSchema v")
  case (Some a)
  with schema_within_bounds [OF Some] assms show ?thesis by simp
qed simp

lemma valid_search_input_parses: "searchWeb_inputSchema valid_search_input = Some valid_search_args"
  by (simp add: searchWeb_inputSchema_def valid_search_input_def valid_search_args_def
        get_field_def z_string_min_def z_limit_def is_integer_def z_optional_def)

lemma short_query_out_of_bounds: "\<not> within_bounds short_query_input"
  by (simp add: within_bounds_def short_query_input_def get_field_def)

text \<open>
  C5. Whatever the input schema of \<open>searchWeb\<close> accepts has a query string of length at
  least 3 and a limit that is an integer between 1 and 10 (5 when none is given). An
  input outside these bounds, such as the query "ab", fails validation, and the call
  ends there: no adapter call is made.
\<close>

theorem searchWeb_input_validation:
  "(\<forall>a. searchWeb_inputSchema input = Some a \<longrightarrow>
        within_bounds input \<and> 3 \<le> length (query a) \<and> 1 \<le> limit a \<and> limit a \<le> 10)
   \<and> (\<not> within_bounds input \<longrightarrow> call_searchWeb firecrawl input = ([], InvalidToolInput))"
  using schema_within_bounds [of input] schema_None [of input]
  by (auto simp: call_searchWeb_def call_tool_def)

theorem searchWeb_input_validation_witness:
  "\<not> within_bounds short_query_input
   \<and> call_searchWeb (Some failing_adapter) short_query_input = ([], InvalidToolInput)
   \<and> searchWeb_inputSchema valid_search_input = Some valid_search_args
   \<and> within_bounds valid_search_input
   \<and> limit valid_search_args = 5"
  using searchWeb_input_validation [of short_query_input "Some failing_adapter"]
    searchWeb_input_validation [of valid_search_input None]
    short_query_out_of_bounds valid_search_input_parses
  by (simp add: valid_search_args_def)

subsection \<open>searchWeb without an adapter\<close>

text \<open>
  C6. A call of \<open>searchWeb\<close> with a valid input while no adapter is configured resolves,
  without any adapter call, to an object whose \<open>results\<close> is the empty list and whose
  \<open>note\<close> explains that the key is not configured.
\<close>

theorem searchWeb_without_adapter:
  "searchWeb_inputSchema input = Some a \<Longrightarrow>
   call_searchWeb None input =
     ([], ToolResult (JObj [(''query'', JStr (query a)),
                            (''limit'', JNum (of_int (limit a))),
                            (''parameters'', raw_parameters a),
                            (''results'', JArr []),
                            (''note'', JStr ''FIRECRAWL_API_KEY is not configured. Unable to perform search.'')]))"
  by (simp add: call_searchWeb_def call_tool_def searchWeb_execute_def search_unconfigured_def)

theorem searchWeb_without_adapter_witness:
  "searchWeb_inputSchema valid_search_input = Some valid_search_args \<and>
   call_searchWeb None valid_search_input =
     ([], ToolResult (JObj [(''query'', JStr ''valid query''),
                            (''limit'', JNum 5),
                            (''parameters'', JObj [(''tbs'', JUndefined), (''location'', JUndefined),
                                                   (''categories'', JUndefined), (''sources'', JUndefined)]),
                            (''results'', JArr []),
                            (''note'', JStr ''FIRECRAWL_API_KEY is not configured. Unable to perform search.'')]))"
  using searchWeb_without_adapter [OF valid_search_input_parses] valid_search_input_parses
  by (simp add: valid_search_args_def raw_parameters_def js_opt_string_def)

subsection \<open>The shape of a search result\<close>

lemma snippet_of_cases:
  "snippet_of item =
     (if truthy_str (item_markdown item)
      then take 400 (case item_markdown item of Some m \<Rightarrow> m | None \<Rightarrow> [])
      else str_or (item_description item) [])"
  by (cases "item_markdown item") (simp_all add: snippet_of_def str_or_def truthy_str_def)

lemma snippet_of_markdown_bound:
  "truthy_str (item_markdown item) \<Longrightarrow> length (snippet_of item) \<le> 400"
  by (simp add: snippet_of_cases)

text \<open>
  What holds of every successful search result: the fields are \<open>query\<close>, \<open>limit\<close>,
  \<open>parameters\<close>, \<open>count\<close>, \<open>results\<close>, \<open>content\<close> and \<open>message\<close>; \<open>count\<close> is the number of
  results; \<open>message\<close> is set exactly when there are none, and \<open>content\<close> then ends in
  the notice "- No results found."; a snippet is the first 400 characters of a non-empty
  markdown, and otherwise the whole description.
\<close>

theorem search_success_shape:
  "(\<exists>fs. search_success a response = JObj fs
      \<and> map fst fs = [''query'', ''limit'', ''parameters'', ''count'', ''results'', ''content'', ''message'']
      \<and> get_field fs ''count'' = JNum (of_nat (length (web_results response)))
      \<and> get_field fs ''results'' = JArr (map result_json (web_results response))
      \<and> carries fs ''message'' = (web_results response = [])
      \<and> (if web_results response = []
          then get_field fs ''content''
                 = JStr (''### Search results for '' @ dquote @ query a @ dquote @ newline
                          @ ''- No results found.'')
          else get_field fs ''content''
                 = JStr (''### Search results for '' @ dquote @ query a @ dquote @ newline
                          @ join newline (map summary_line (web_results response)))))
   \<and> res_snippet (to_result item)
       = (if truthy_str (item_markdown item)
          then take 400 (case item_markdown item of Some m \<Rightarrow> m | None \<Rightarrow> [])
          else str_or (item_description item) [])"
  by (simp add: search_success_def Let_def get_field_def carries_def search_summary_def
        to_result_def snippet_of_cases)

text \<open>
  C8. A successful search result has the fields \<open>query\<close>, \<open>limit\<close>, \<open>parameters\<close>,
  \<open>count\<close>, \<open>results\<close>, \<open>content\<close> and \<open>message\<close>, and every snippet is at most 400
  characters long. The bound fails: an entry without markdown takes its whole
  description as snippet, and a description of 401 characters gives a snippet of 401.
\<close>

theorem snippet_longer_than_400:
  "map_sum id snippet_lengths (snd (searchWeb_execute (Some long_description_adapter) valid_search_args))
     = Inr [401]"
  by (simp add: searchWeb_execute_def long_description_adapter_def search_success_def
        web_results_def to_result_def snippet_of_def str_or_def long_description_item_def
        result_json_def snippet_lengths_def get_field_def Let_def)

subsection \<open>Only web entries are returned\<close>

text \<open>
  C10. Whatever the adapter's search response holds, \<open>searchWeb\<close> builds \<open>results\<close>,
  \<open>count\<close> and \<open>content\<close> from its \<open>web\<close> field alone, an absent \<open>web\<close> field counting as
  the empty list. Entries under \<open>news\<close> or \<open>images\<close> never reach the result, also when
  those source types were asked for in \<open>sources\<close>.
\<close>

theorem searchWeb_results_from_web_only:
  assumes "search fc (query a) (build_searchOptions a) = Inr response"
  shows "\<exists>fs. snd (searchWeb_execute (Some fc) a) = Inr (JObj fs)
     \<and> get_field fs ''results''
         = JArr (map (\<lambda>item. result_json (to_result item))
                  (case web response of None \<Rightarrow> [] | Some items \<Rightarrow> items))
     \<and> get_field fs ''count''
         = JNum (of_nat (length (case web response of None \<Rightarrow> [] | Some items \<Rightarrow> items)))
     \<and> get_field fs ''content''
         = JStr (search_summary (query a)
                  (map to_result (case web response of None \<Rightarrow> [] | Some items \<Rightarrow> items)))
     \<and> JObj fs = search_success a (response\<lparr>news := None, images := None\<rparr>)"
  using assms
  by (simp add: searchWeb_execute_def search_success_def web_results_def Let_def get_field_def
        comp_def)

text \<open>
  The theorem at a search that asks for news only and an adapter that answers with one
  news entry and no \<open>web\<close> field: the result is empty.
\<close>

theorem searchWeb_results_from_web_only_witness:
  "search news_only_adapter (query news_search_args) (build_searchOptions news_search_args)
     = Inr \<lparr> web = None,
             news = Some [JObj [(''title'', JStr ''Launch day''),
                                (''url'', JStr ''https://news.example.com/1'')]],
             images = None \<rparr>
   \<and> so_sources (build_searchOptions news_search_args) = Some [SrcNews]
   \<and> (\<exists>fs. snd (searchWeb_execute (Some news_only_adapter) news_search_args) = Inr (JObj fs)
         \<and> get_field fs ''results'' = JArr [] \<and> get_field fs ''count'' = JNum 0)"
proof -
  have h: "search news_only_adapter (query news_search_args) (build_searchOptions news_search_args)
     = Inr \<lparr> web = None,
             news = Some [JObj [(''title'', JStr ''Launch day''),
                                (''url'', JStr ''https://news.example.com/1'')]],
             images = None \<rparr>"
    by (simp add: news_only_adapter_def)
  have o: "so_sources (build_searchOptions news_search_args) = Some [SrcNews]"
    by (simp add: build_searchOptions_def news_search_args_def)
  from searchWeb_results_from_web_only [OF h]
  have "\<exists>fs. snd (searchWeb_execute (Some news_only_adapter) news_search_args) = Inr (JObj fs)
         \<and> get_field fs ''results'' = JArr [] \<and> get_field fs ''count'' = JNum 0"
    by auto
  with h o show ?thesis by blast
qed

section \<open>The structured-output contract is checked field by field\<close>

lemma those_map_roundtrip:
  assumes "\<And>x. p (enc x) = Some x"
  shows "those (map (p \<circ> enc) xs) = Some xs"
  using assms by (induction xs) simp_all

lemma z_string_roundtrip: "z_string (JStr s) = Some s"
  by (simp add: z_string_def)

lemma z_nullable_string_roundtrip: "z_nullable z_string (js_nullable_string a) = Some a"
  by (cases a) (simp_all add: z_nullable_def z_string_def js_nullable_string_def)

lemma z_confidence_roundtrip: "z_confidence (JStr (confidence_name c)) = Some c"
  by (cases c) (simp_all add: z_confidence_def z_enum_def confidence_name_def)

lemma z_task_status_roundtrip: "z_task_status (JStr (task_status_name s)) = Some s"
  by (cases s) (simp_all add: z_task_status_def z_enum_def task_status_name_def)

lemma z_finding_source_roundtrip: "z_finding_source (finding_source_json s) = Some s"
  by (simp add: z_finding_source_def finding_source_json_def get_field_def z_string_def
        z_nullable_string_roundtrip)

lemma z_finding_roundtrip: "z_finding (finding_json f) = Some f"
  by (simp add: z_finding_def finding_json_def get_field_def z_string_def
        z_nullable_string_roundtrip z_record_any_def z_confidence_roundtrip z_array_def
        those_map_roundtrip [of z_finding_source finding_source_json, OF z_finding_source_roundtrip])

lemma those_map_accepts: "(those (map p xs) \<noteq> None) = list_all (\<lambda>x. p x \<noteq> None) xs"
  by (induction xs) (auto split: option.splits)

lemma those_map_length: "those (map p xs) = Some ys \<Longrightarrow> length ys = length xs"
  by (induction xs arbitrary: ys) (auto split: option.splits)

lemma those_z_string: "those (map z_string xs) = Some ss \<Longrightarrow> xs = map JStr ss"
  by (induction xs arbitrary: ss) (auto simp: z_string_def split: option.splits json.splits)

lemma z_boolean_accepts: "(z_boolean v \<noteq> None) = is_boolean v"
  by (cases v) (simp_all add: z_boolean_def is_boolean_def)

lemma z_string_accepts: "(z_string v \<noteq> None) = is_string v"
  by (cases v) (simp_all add: z_string_def is_string_def)

lemma z_nullable_string_accepts: "(z_nullable z_string v \<noteq> None) = is_string_or_null v"
  by (cases v) (simp_all add: z_nullable_def z_string_def is_string_or_null_def)

lemma z_record_any_accepts: "(z_record_any v \<noteq> None) = is_object v"
  by (cases v) (simp_all add: z_record_any_def is_object_def)

lemma z_enum_accepts: "(z_enum tbl v \<noteq> None) = is_one_of (map fst tbl) v"
  by (cases v) (simp_all add: z_enum_def is_one_of_def map_of_eq_None_iff)

lemma z_array_accepts: "(z_array p v \<noteq> None) = is_array_of (\<lambda>x. p x \<noteq> None) v"
  by (cases v) (simp_all add: z_array_def is_array_of_def those_map_accepts del: not_None_eq)

lemma z_finding_source_accepts: "(z_finding_source v \<noteq> None) = well_shaped_source v"
  by (cases v)
     (auto simp: z_finding_source_def well_shaped_source_def bind_eq_None_conv
        z_string_accepts [symmetric] z_nullable_string_accepts [symmetric])

lemma z_finding_accepts: "(z_finding v \<noteq> None) = well_shaped_finding v"
proof -
  have s: "(\<lambda>x. z_finding_source x \<noteq> None) = well_shaped_source"
    by (rule ext) (rule z_finding_source_accepts)
  have c: "\<And>w. (z_confidence w \<noteq> None) = is_one_of [''high'', ''medium'', ''low''] w"
    using z_enum_accepts [of "[(''high'', High), (''medium'', Medium), (''low'', Low)]"]
    by (simp add: z_confidence_def)
  have a: "\<And>w. (z_array z_finding_source w \<noteq> None) = is_array_of well_shaped_source w"
    by (simp add: z_array_accepts s del: not_None_eq)
  show ?thesis
    by (cases v)
       (auto simp: z_finding_def well_shaped_finding_def bind_eq_None_conv
          z_string_accepts [symmetric] z_nullable_string_accepts [symmetric]
          z_record_any_accepts [symmetric] c [symmetric] a [symmetric])
qed

lemma schema_accepts_iff: "(scoutResponseSchema v \<noteq> None) = well_typed_candidate v"
proof -
  have f: "(\<lambda>x. z_finding x \<noteq> None) = well_shaped_finding"
    by (rule ext) (rule z_finding_accepts)
  have g: "(\<lambda>x. z_string x \<noteq> None) = is_string"
    by (rule ext) (rule z_string_accepts)
  have c: "\<And>w. (z_task_status w \<noteq> None)
      = is_one_of [''completed'', ''partial'', ''not_found'', ''insufficient_data''] w"
    using z_enum_accepts [of "[(''completed'', Completed), (''partial'', Partial),
             (''not_found'', Not_found), (''insufficient_data'', Insufficient_data)]"]
    by (simp add: z_task_status_def)
  have a: "\<And>w. (z_array z_finding w \<noteq> None) = is_array_of well_shaped_finding w"
    by (simp add: z_array_accepts f del: not_None_eq)
  have b: "\<And>w. (z_array z_string w \<noteq> None) = is_array_of is_string w"
    by (simp add: z_array_accepts g del: not_None_eq)
  show ?thesis
    by (cases v)
       (auto simp: scoutResponseSchema_def well_typed_candidate_def bind_eq_None_conv
          z_boolean_accepts [symmetric] z_string_accepts [symmetric]
          z_nullable_string_accepts [symmetric] c [symmetric] a [symmetric] b [symmetric])
qed

lemma z_task_status_Some: "z_task_status w = Some s \<Longrightarrow> w = JStr (task_status_name s)"
  by (cases w; cases s)
     (auto simp: z_task_status_def z_enum_def task_status_name_def split: if_splits)

lemma z_nullable_string_Some: "z_nullable z_string w = Some n \<Longrightarrow> w = js_nullable_string n"
  by (cases w) (auto simp: z_nullable_def z_string_def js_nullable_string_def)

lemma schema_Some_fields:
  assumes "scoutResponseSchema (JObj fs) = Some r"
  shows "get_field fs ''taskCompleted'' = JBool (taskCompleted r)
       \<and> get_field fs ''taskStatus'' = JStr (task_status_name (taskStatus r))
       \<and> get_field fs ''message'' = JStr (message r)
       \<and> (\<exists>js. get_field fs ''findings'' = JArr js \<and> those (map z_finding js) = Some (findings r)
               \<and> length js = length (findings r))
       \<and> get_field fs ''searchStrategies'' = JArr (map JStr (searchStrategies r))
       \<and> get_field fs ''nextSteps'' = js_nullable_string (nextSteps r)"
proof -
  from assms obtain tc ts m f st n where
    tc: "z_boolean (get_field fs ''taskCompleted'') = Some tc"
    and ts: "z_task_status (get_field fs ''taskStatus'') = Some ts"
    and m: "z_string (get_field fs ''message'') = Some m"
    and f: "z_array z_finding (get_field fs ''findings'') = Some f"
    and st: "z_array z_string (get_field fs ''searchStrategies'') = Some st"
    and n: "z_nullable z_string (get_field fs ''nextSteps'') = Some n"
    and r: "r = \<lparr> taskCompleted = tc, taskStatus = ts, message = m, findings = f,
                 searchStrategies = st, nextSteps = n \<rparr>"
    by (auto simp: scoutResponseSchema_def split: Option.bind_splits)
  from tc have 1: "get_field fs ''taskCompleted'' = JBool tc"
    by (auto simp: z_boolean_def split: json.splits)
  from m have 3: "get_field fs ''message'' = JStr m"
    by (auto simp: z_string_def split: json.splits)
  from f obtain js where 4: "get_field fs ''findings'' = JArr js" "those (map z_finding js) = Some f"
    by (auto simp: z_array_def split: json.splits)
  from st have 5: "get_field fs ''searchStrategies'' = JArr (map JStr st)"
    by (auto simp: z_array_def those_z_string split: json.splits)
  show ?thesis
    using 1 z_task_status_Some [OF ts] 3 4 those_map_length [OF 4(2)] 5
      z_nullable_string_Some [OF n]
    by (simp add: r)
qed

text \<open>
  C1. The validation of the structured output checks each field against its own type
  and nothing else. A candidate is accepted exactly when it is well typed field by
  field: \<open>taskCompleted\<close> a boolean, \<open>taskStatus\<close> one of the four status names,
  \<open>message\<close> a string, \<open>findings\<close> an array of well-shaped findings,
  \<open>searchStrategies\<close> an array of strings, \<open>nextSteps\<close> a string or \<open>null\<close>. The
  accepted result holds the candidate's field values unchanged. Every typed result is
  accepted as it is, whatever \<open>taskCompleted\<close>, \<open>taskStatus\<close> and \<open>findings\<close> say
  about each other: the rules that relate them are given to the model as instructions
  (in the field descriptions and the system prompt) and are not part of the validation.
\<close>

theorem schema_checks_each_field_alone:
  "scoutResponseSchema (candidate_json r) = Some r
   \<and> ((scoutResponseSchema v \<noteq> None) = well_typed_candidate v)
   \<and> (\<forall>fs r'. v = JObj fs \<and> scoutResponseSchema v = Some r' \<longrightarrow>
          get_field fs ''taskCompleted'' = JBool (taskCompleted r')
          \<and> get_field fs ''taskStatus'' = JStr (task_status_name (taskStatus r'))
          \<and> get_field fs ''message'' = JStr (message r')
          \<and> (\<exists>js. get_field fs ''findings'' = JArr js
                  \<and> those (map z_finding js) = Some (findings r')
                  \<and> length js = length (findings r'))
          \<and> get_field fs ''searchStrategies'' = JArr (map JStr (searchStrategies r'))
          \<and> get_field fs ''nextSteps'' = js_nullable_string (nextSteps r'))"
proof (intro conjI allI impI)
  show "scoutResponseSchema (candidate_json r) = Some r"
    by (simp add: scoutResponseSchema_def candidate_json_def get_field_def z_boolean_def
          z_task_status_roundtrip z_string_def z_nullable_string_roundtrip z_array_def
          those_map_roundtrip [of z_finding finding_json, OF z_finding_roundtrip]
          those_map_roundtrip [of z_string JStr, OF z_string_roundtrip])
next
  show "(scoutResponseSchema v \<noteq> None) = well_typed_candidate v"
    by (rule schema_accepts_iff)
next
  fix fs r'
  assume "v = JObj fs \<and> scoutResponseSchema v = Some r'"
  then have "scoutResponseSchema (JObj fs) = Some r'" by blast
  from schema_Some_fields [OF this]
  show "get_field fs ''taskCompleted'' = JBool (taskCompleted r')"
    and "get_field fs ''taskStatus'' = JStr (task_status_name (taskStatus r'))"
    and "get_field fs ''message'' = JStr (message r')"
    and "\<exists>js. get_field fs ''findings'' = JArr js
            \<and> those (map z_finding js) = Some (findings r')
            \<and> length js = length (findings r')"
    and "get_field fs ''searchStrategies'' = JArr (map JStr (searchStrategies r'))"
    and "get_field fs ''nextSteps'' = js_nullable_string (nextSteps r')"
    by blast+
qed

lemma partial_candidate_parses: "scoutResponseSchema partial_candidate = Some partial_result"
  by (simp add: scoutResponseSchema_def partial_candidate_def partial_result_def get_field_def
        z_boolean_def z_task_status_def z_confidence_def z_enum_def z_string_def z_array_def
        z_nullable_def z_record_any_def z_finding_def z_finding_source_def)

lemma ill_typed_candidate_not_typed: "\<not> well_typed_candidate ill_typed_candidate"
  by (simp add: well_typed_candidate_def ill_typed_candidate_def get_field_def is_boolean_def)

text \<open>
  The theorem at a candidate with the status \<open>partial\<close>, one finding and a key the
  schema does not know, which is accepted, and at a candidate whose \<open>taskCompleted\<close> is
  the string "yes", which is rejected.
\<close>

theorem schema_checks_each_field_alone_witness:
  "scoutResponseSchema partial_candidate = Some partial_result
   \<and> well_typed_candidate partial_candidate
   \<and> (\<exists>fs. partial_candidate = JObj fs
          \<and> get_field fs ''taskCompleted'' = JBool (taskCompleted partial_result)
          \<and> get_field fs ''taskStatus'' = JStr (task_status_name (taskStatus partial_result)))
   \<and> \<not> well_typed_candidate ill_typed_candidate
   \<and> scoutResponseSchema ill_typed_candidate = None"
proof -
  have a: "well_typed_candidate partial_candidate"
    using schema_checks_each_field_alone [of partial_result partial_candidate]
      partial_candidate_parses
    by simp
  have b: "scoutResponseSchema ill_typed_candidate = None"
    using schema_checks_each_field_alone [of partial_result ill_typed_candidate]
      ill_typed_candidate_not_typed
    by simp
  obtain fs where fs: "partial_candidate = JObj fs"
    by (simp add: partial_candidate_def)
  have c: "\<exists>fs. partial_candidate = JObj fs
          \<and> get_field fs ''taskCompleted'' = JBool (taskCompleted partial_result)
          \<and> get_field fs ''taskStatus'' = JStr (task_status_name (taskStatus partial_result))"
    using schema_checks_each_field_alone [of partial_result partial_candidate]
      partial_candidate_parses fs
    by blast
  show ?thesis
    using a b c partial_candidate_parses ill_typed_candidate_not_typed by simp
qed

text \<open>
  C1 as stated fails: a candidate with \<open>taskCompleted = true\<close>, \<open>taskStatus = completed\<close>
  and no findings is accepted, and the accepted result breaks the invariant.
\<close>

theorem validation_accepts_inconsistent_result:
  "scoutResponseSchema inconsistent_candidate = Some inconsistent_result
   \<and> taskCompleted inconsistent_result
   \<and> findings inconsistent_result = []
   \<and> \<not> result_invariant inconsistent_result"
  by (simp add: scoutResponseSchema_def inconsistent_candidate_def inconsistent_result_def
        get_field_def z_boolean_def z_task_status_def z_enum_def z_string_def z_array_def
        z_nullable_def result_invariant_def)

section \<open>The agent loop\<close>

lemma run_terminal: "terminal (state c) \<Longrightarrow> run model tools c = [c]"
  by (simp add: run.simps)

lemma run_unfold:
  "\<not> terminal (state c) \<Longrightarrow> run model tools c = c # run model tools (agent_step model tools c)"
  by (simp add: run.simps)

lemma step_running_tools:
  assumes "state c = RUNNING n" "n \<le> max_steps" "model (request_at n (history c)) = ToolCalls calls"
  shows "state (agent_step model tools c) = AWAITING_TOOL_RESULTS n calls"
    and "invocations (agent_step model tools c) = invocations c @ [request_at n (history c)]"
  using assms by (simp_all add: agent_step_def Let_def)

lemma step_awaiting:
  assumes "state c = AWAITING_TOOL_RESULTS n calls"
  shows "state (agent_step model tools c) = next_step n"
    and "invocations (agent_step model tools c) = invocations c"
  using assms by (simp_all add: agent_step_def)

text \<open>
  From \<open>RUNNING(n)\<close> a model that always asks for tools takes the loop through the
  remaining steps, one model invocation each, to the step limit.
\<close>

lemma run_always_tools:
  assumes model: "always_requests_tools model"
  shows "state c = RUNNING n \<Longrightarrow> n \<le> max_steps \<Longrightarrow> k = max_steps - n \<Longrightarrow>
     state (last (run model tools c)) = ABORTED ''step_limit_exceeded'' \<and>
     length (invocations (last (run model tools c))) = length (invocations c) + (Suc max_steps - n) \<and>
     list_all (\<lambda>c'. \<not> is_finished (state c')) (run model tools c)"
proof (induction k arbitrary: n c)
  case 0
  then have n: "n = max_steps" by simp
  obtain calls where calls: "model (request_at n (history c)) = ToolCalls calls"
    using model unfolding always_requests_tools_def by blast
  let ?c1 = "agent_step model tools c"
  let ?c2 = "agent_step model tools ?c1"
  have s1: "state ?c1 = AWAITING_TOOL_RESULTS n calls"
    and i1: "invocations ?c1 = invocations c @ [request_at n (history c)]"
    using "0.prems"(1,2) calls by (simp_all add: step_running_tools)
  have s2: "state ?c2 = ABORTED ''step_limit_exceeded''" and i2: "invocations ?c2 = invocations ?c1"
    using step_awaiting [OF s1] n by (simp_all add: next_step_def)
  have r: "run model tools c = [c, ?c1, ?c2]"
    using "0.prems"(1) s1 s2 by (simp add: run_unfold run_terminal terminal_def)
  show ?case
    using "0.prems"(1) s1 s2 i1 i2 n by (simp add: r is_finished_def)
next
  case (Suc k)
  then have n: "n < max_steps" by simp
  obtain calls where calls: "model (request_at n (history c)) = ToolCalls calls"
    using model unfolding always_requests_tools_def by blast
  let ?c1 = "agent_step model tools c"
  let ?c2 = "agent_step model tools ?c1"
  have s1: "state ?c1 = AWAITING_TOOL_RESULTS n calls"
    and i1: "invocations ?c1 = invocations c @ [request_at n (history c)]"
    using Suc.prems(1,2) calls by (simp_all add: step_running_tools)
  have s2: "state ?c2 = RUNNING (Suc n)" and i2: "invocations ?c2 = invocations ?c1"
    using step_awaiting [OF s1] n by (simp_all add: next_step_def)
  have r: "run model tools c = c # ?c1 # run model tools ?c2"
    using Suc.prems(1) s1 by (simp add: run_unfold terminal_def)
  have ne: "run model tools ?c2 \<noteq> []"
    by (subst run.simps) simp
  have IH: "state (last (run model tools ?c2)) = ABORTED ''step_limit_exceeded'' \<and>
     length (invocations (last (run model tools ?c2)))
       = length (invocations ?c2) + (Suc max_steps - Suc n) \<and>
     list_all (\<lambda>c'. \<not> is_finished (state c')) (run model tools ?c2)"
    using Suc.IH [OF s2] n Suc.prems(3) by simp
  show ?case
    using IH Suc.prems(1) s1 i1 i2 n ne by (simp add: r is_finished_def)
qed

text \<open>
  C2. Given a model capability that requests tool calls at every step, the agent loop
  never reaches \<open>FINISHED\<close>: it ends in \<open>ABORTED("step_limit_exceeded")\<close> after exactly
  10 steps, that is, after exactly 10 invocations of the model.
\<close>

theorem always_tools_step_limit:
  assumes "always_requests_tools model"
  shows "state (last (chatAgent model tools messages)) = ABORTED ''step_limit_exceeded'' \<and>
         length (invocations (last (chatAgent model tools messages))) = 10 \<and>
         list_all (\<lambda>c. \<not> is_finished (state c)) (chatAgent model tools messages)"
  using run_always_tools [OF assms, of "initial_config messages" 1 "max_steps - 1" tools]
  by (simp add: chatAgent_def initial_config_def max_steps_def)

theorem always_tools_step_limit_witness:
  "always_requests_tools always_search \<and>
   state (last (chatAgent always_search (dispatch any_url None) [])) = ABORTED ''step_limit_exceeded'' \<and>
   length (invocations (last (chatAgent always_search (dispatch any_url None) []))) = 10"
proof -
  have h: "always_requests_tools always_search"
    by (simp add: always_requests_tools_def always_search_def)
  show ?thesis
    using h always_tools_step_limit [OF h, of "dispatch any_url None" "[]"] by simp
qed

lemma prepareStep_last:
  "prepareStep 9 = Some (''You're approaching your step limit (step 10 of 10). ''
      @ ''Consider wrapping up your search and preparing your response.'')"
  by (simp add: prepareStep_def show_nat.simps digit_char_def)

text \<open>
  C7. At every step \<open>n\<close> from 1 to 10 the model capability is invoked with the full
  message history, the tool catalog and the structured-output contract, together with
  what \<open>prepareStep\<close> returns for that step. \<open>prepareStep\<close> returns the directive exactly
  when the library's step number, which counts from 0, is 9: that is at step \<open>n = 10\<close>,
  the last one, as the directive itself says ("step 10 of 10"). At no other step is
  there a directive.
\<close>

theorem directive_at_last_step:
  assumes "state c = RUNNING n" and "1 \<le> n" and "n \<le> max_steps"
  shows "\<exists>rq. invocations (agent_step model tools c) = invocations c @ [rq]
           \<and> rq_step rq = n
           \<and> rq_messages rq = history c
           \<and> rq_tools rq = tool_catalog
           \<and> rq_output rq = ScoutResponse
           \<and> rq_directive rq = prepareStep (n - 1)
           \<and> ((rq_directive rq \<noteq> None) = (n = max_steps))
           \<and> ((prepareStep (n - 1) \<noteq> None) = (n - 1 = 9))"
  using assms
  by (cases "model (request_at n (history c))")
     (auto simp: agent_step_def Let_def request_at_def prepareStep_def max_steps_def
           split: option.splits)

theorem directive_at_last_step_witness:
  "state (config_at 10) = RUNNING 10 \<and> (1::nat) \<le> 10 \<and> 10 \<le> max_steps
   \<and> map rq_directive (invocations (agent_step always_search (dispatch any_url None) (config_at 10)))
       = [Some (''You're approaching your step limit (step 10 of 10). ''
                @ ''Consider wrapping up your search and preparing your response.'')]
   \<and> map rq_directive (invocations (agent_step always_search (dispatch any_url None) (config_at 9)))
       = [None]"
proof -
  have a: "state (config_at 10) = RUNNING 10" and a': "state (config_at 9) = RUNNING 9"
    by (simp_all add: config_at_def)
  have b: "(1::nat) \<le> 10" and b': "(1::nat) \<le> 9" by simp_all
  have c: "10 \<le> max_steps" and c': "9 \<le> max_steps" by (simp_all add: max_steps_def)
  have i: "invocations (config_at 10) = []" and i': "invocations (config_at 9) = []"
    by (simp_all add: config_at_def)
  from directive_at_last_step [OF a b c, of always_search "dispatch any_url None"]
  have x: "map rq_directive (invocations (agent_step always_search (dispatch any_url None) (config_at 10)))
       = [prepareStep 9]"
    using i by auto
  from directive_at_last_step [OF a' b' c', of always_search "dispatch any_url None"]
  have y: "map rq_directive (invocations (agent_step always_search (dispatch any_url None) (config_at 9)))
       = [None]"
    using i' by (auto simp: max_steps_def)
  show ?thesis using a b c x y by (simp add: prepareStep_last)
qed

text \<open>
  C7 as stated fails: with 10 steps, step \<open>max - 1 = 9\<close> gets no directive, and step 10
  gets one.
\<close>

theorem no_directive_at_step_nine:
  "max_steps - 1 = 9
   \<and> rq_directive (request_at (max_steps - 1) []) = None
   \<and> rq_directive (request_at max_steps []) \<noteq> None"
  by (simp add: max_steps_def request_at_def prepareStep_def)

section \<open>The transport handler\<close>

text \<open>
  C3. A request to \<open>POST\<close> while the model-provider credential is absent (or empty) is
  answered with status 400 and a body holding an error message, and has no effect: no
  model invocation and no tool call takes place.
\<close>

theorem POST_missing_credential:
  assumes "\<not> truthy_str (OPENAI_API_KEY env)"
  shows "\<exists>r. POST pf env validate respond req_json = ([], Inr r)
           \<and> status r = 400
           \<and> body r = JsonBody (JObj [(''error'', JStr ''Set OPENAI_API_KEY to enable the chat.'')])"
  using assms by (simp add: POST_def json_error_def)

text \<open>
  The theorem at a request whose agent would invoke the model, as the same request with
  a credential shows.
\<close>

lemma POST_with_credential_invokes_model:
  "fst (POST working_platform with_key accept_messages
          (respond_with answer_at_once (dispatch any_url None) three_events) hello_request)
     \<noteq> []
   \<and> ModelInvocation \<in> set (fst (POST working_platform with_key accept_messages
          (respond_with answer_at_once (dispatch any_url None) three_events) hello_request))"
  by code_simp

theorem POST_missing_credential_witness:
  "\<not> truthy_str (OPENAI_API_KEY no_key)
   \<and> POST working_platform no_key accept_messages
        (respond_with answer_at_once (dispatch any_url None) three_events) hello_request
       = ([], Inr (json_error ''Set OPENAI_API_KEY to enable the chat.''))"
proof -
  have h: "\<not> truthy_str (OPENAI_API_KEY no_key)"
    by (simp add: no_key_def truthy_str_def)
  from POST_missing_credential [OF h, of working_platform accept_messages
      "respond_with answer_at_once (dispatch any_url None) three_events" hello_request]
  obtain r where r: "POST working_platform no_key accept_messages
        (respond_with answer_at_once (dispatch any_url None) three_events) hello_request
       = ([], Inr r)"
    by blast
  have "POST working_platform no_key accept_messages
        (respond_with answer_at_once (dispatch any_url None) three_events) hello_request
       = ([], Inr (json_error ''Set OPENAI_API_KEY to enable the chat.''))"
    using h by (simp add: POST_def)
  with h r show ?thesis by simp
qed

lemma start_lines_parse: "start_lines (pf\<lparr>json_parse := p\<rparr>) v = start_lines pf v"
  by (simp add: start_lines_def split: list.splits)

lemma stream_response_snd:
  "snd (stream_response pf resp)
     = \<lparr> status = 200, headers = ar_headers resp, body = StreamBody (ar_body resp) \<rparr>"
  by (simp add: stream_response_def tee_def)

text \<open>The response of \<open>POST\<close>, without its effects.\<close>

lemma POST_snd:
  "snd (POST pf env validate respond req_json) =
     (if \<not> truthy_str (OPENAI_API_KEY env)
      then Inr (json_error ''Set OPENAI_API_KEY to enable the chat.'')
      else
        (case req_json of
           Inl e \<Rightarrow> Inr (json_error ''Invalid JSON payload.'')
         | Inr b \<Rightarrow>
             (case body_messages b of
                Inl e \<Rightarrow> Inl e
              | Inr messages \<Rightarrow>
                  (case validate messages of
                     Inl e \<Rightarrow> Inl e
                   | Inr validatedMessages \<Rightarrow>
                       (case snd (console_seq (console pf) (start_lines pf validatedMessages)) of
                          Some e \<Rightarrow> Inl e
                        | None \<Rightarrow> Inr (snd (stream_response pf (snd (respond validatedMessages)))))))))"
  by (simp add: POST_def split: sum.splits prod.splits option.splits)

lemma POST_parse_independent:
  "snd (POST (pf\<lparr>json_parse := p\<rparr>) env validate respond req_json)
     = snd (POST pf env validate respond req_json)"
  by (simp add: POST_snd start_lines_parse stream_response_snd split: sum.splits option.splits)

text \<open>
  Once the credential is there and the request is read and validated, the client gets
  the body of the agent's response, with the agent's headers.
\<close>

lemma POST_streams_agent_body:
  assumes "truthy_str (OPENAI_API_KEY env)"
    and "req_json = Inr b" and "body_messages b = Inr ms" and "validate ms = Inr vms"
    and "snd (console_seq (console pf) (start_lines pf vms)) = None"
  shows "snd (POST pf env validate respond req_json)
     = Inr \<lparr> status = 200, headers = ar_headers (snd (respond vms)),
             body = StreamBody (ar_body (snd (respond vms))) \<rparr>"
  using assms by (simp add: POST_snd stream_response_snd)

text \<open>
  C9. The two branches of the split stream each deliver the chunks of the source, as
  many and in the same order. The response that goes to the client is the client branch
  with the agent's headers, whatever happens in the logging branch: a parser that
  fails and a console that throws change nothing of it, and the response of \<open>POST\<close>
  does not depend on the parser at all.
\<close>

theorem logging_never_alters_client_stream:
  "(\<forall>logStream clientStream. tee (ar_body resp) = (logStream, clientStream) \<longrightarrow>
       chunks logStream = chunks (ar_body resp) \<and> chunks clientStream = chunks (ar_body resp)
       \<and> length (chunks logStream) = length (chunks (ar_body resp))
       \<and> length (chunks clientStream) = length (chunks (ar_body resp)))
   \<and> snd (stream_response pf resp)
       = \<lparr> status = 200, headers = ar_headers resp, body = StreamBody (ar_body resp) \<rparr>
   \<and> snd (stream_response pf resp) = snd (stream_response pf' resp)
   \<and> snd (POST (pf\<lparr>json_parse := p\<rparr>) env validate respond req_json)
       = snd (POST pf env validate respond req_json)"
  by (simp add: tee_def stream_response_snd POST_parse_independent)

text \<open>
  The theorem at a stream of three events, read once on a platform where every parse
  fails and every console call throws, and once on one where both work.
\<close>

theorem logging_never_alters_client_stream_witness:
  "tee (ar_body three_events) = (ar_body three_events, ar_body three_events)
   \<and> length (chunks (ar_body three_events)) = 3
   \<and> fst (stream_response failing_platform three_events) = []
   \<and> length (fst (stream_response working_platform three_events)) = 9
   \<and> snd (stream_response failing_platform three_events)
       = snd (stream_response working_platform three_events)
   \<and> body (snd (stream_response failing_platform three_events)) = StreamBody (ar_body three_events)"
proof -
  have t: "tee (ar_body three_events) = (ar_body three_events, ar_body three_events)"
    by (simp add: tee_def)
  have f: "fst (stream_response failing_platform three_events) = []"
    by (simp add: stream_response_def tee_def log_stream_def three_events_def log_line_def
          failing_platform_def newline_def nonblank_def is_space_def)
  have w: "length (fst (stream_response working_platform three_events)) = 9"
    by (simp add: stream_response_def tee_def log_stream_def three_events_def log_line_def
          working_platform_def newline_def nonblank_def is_space_def get_field_def)
  have n: "length (chunks (ar_body three_events)) = 3"
    by (simp add: three_events_def)
  have a: "snd (stream_response failing_platform three_events)
       = snd (stream_response working_platform three_events)"
    and b: "snd (stream_response failing_platform three_events)
       = \<lparr> status = 200, headers = ar_headers three_events, body = StreamBody (ar_body three_events) \<rparr>"
    using logging_never_alters_client_stream [of three_events failing_platform working_platform
        "json_parse working_platform" with_key accept_messages
        "respond_with answer_at_once (dispatch any_url None) three_events" hello_request]
    by blast+
  have c: "body (snd (stream_response failing_platform three_events)) = StreamBody (ar_body three_events)"
    by (simp add: b)
  show ?thesis using t f w n a c by blast
qed

end
